theory Spec2Isabelle
  imports Main
begin

section \<open>MeetWrapper: a shallow embedding of src/MeetWrapper.js\<close>

text \<open>
  The class \<open>MeetWrapper\<close> glues a StreamDeck to the Google Meet page. Its private
  fields become the record \<open>state\<close>; every method becomes a function from a state to an
  \<open>outcome\<close>: the state it leaves, the calls it made on its collaborators (device,
  lights, page), and the exception it threw, if any. A JavaScript exception leaves the
  fields written before it in place, so an outcome keeps the state and the calls also
  when it carries an error. \<open>console.log\<close> is not modelled.

  The \<open>async\<close> methods contain no \<open>await\<close>, so their bodies run to the end
  within the call, as modelled; the mute observer awaits its two updates, which do not
  read or write the tracker state, and is modelled as running them one after the other.
\<close>

subsection \<open>The page\<close>

text \<open>
  An element has an identity, attributes (\<open>dataset.isMuted\<close> is the attribute
  \<open>data-is-muted\<close>), a class list and child nodes, which are taken to be elements (the
  getters of the wrapper are documented to return \<open>?Element\<close>). The document answers
  \<open>document.querySelector\<close>: a selector string is mapped to the first element that
  matches it, or to nothing (\<open>null\<close>); which element matches which selector is the
  page's business and is left open.
\<close>

datatype element =
  Element (elem_id: nat) (attributes: "(string \<times> string) list")
    (classList: "string list") (childNodes: "element list")

type_synonym document = "string \<rightharpoonup> element"

definition querySelector :: "document \<Rightarrow> string \<Rightarrow> element option" where
  "querySelector d sel = d sel"

definition getAttribute :: "element \<Rightarrow> string \<Rightarrow> string option" where
  "getAttribute e name = map_of (attributes e) name"

definition contains :: "element \<Rightarrow> string \<Rightarrow> bool" where
  "contains e c = (c \<in> set (classList e))"

definition firstChild :: "element \<Rightarrow> element option" where
  "firstChild e = (case childNodes e of [] \<Rightarrow> None | c # _ \<Rightarrow> Some c)"

text \<open>
  \<open>element.querySelector('[name=value]')\<close>: the first descendant, in document order,
  whose attribute \<open>name\<close> is \<open>value\<close>.
\<close>

fun firstWithAttr :: "string \<Rightarrow> string \<Rightarrow> element list \<Rightarrow> element option" where
  "firstWithAttr name v [] = None"
| "firstWithAttr name v (Element i as cs ch # rest) =
     (if map_of as name = Some v then Some (Element i as cs ch)
      else (case firstWithAttr name v ch of
              Some e \<Rightarrow> Some e
            | None \<Rightarrow> firstWithAttr name v rest))"

definition elemQuerySelectorAttr :: "element \<Rightarrow> string \<Rightarrow> string \<Rightarrow> element option" where
  "elemQuerySelectorAttr e name v = firstWithAttr name v (childNodes e)"

subsection \<open>The collaborators\<close>

text \<open>
  The StreamDeck driver and the Hue helper are not part of this file of the repository;
  the wrapper reads \<open>isConnected\<close>, calls \<open>buttonNameToId\<close> (an opaque lookup, taken
  as a parameter), and reads \<open>auto\<close>. \<open>hueLights\<close> may be absent; the device object
  is there (the constructor calls \<open>addEventListener\<close> on it), so \<open>#streamDeck?.\<close>
  is a plain field access.
\<close>

record streamDeck =
  isConnected :: bool
  buttonNameToId :: "string \<Rightarrow> int"

record hueHelper =
  auto :: bool

record env =
  deck :: streamDeck
  hueLights :: "hueHelper option"

text \<open>The calls the wrapper makes on the device, the lights and the page.\<close>

datatype action =
    ClearAllButtons
  | FillURL int string bool
  | HueOn bool
  | Click nat

subsection \<open>The tracker state\<close>

datatype room = lobby | greenRoom | meeting | exitHall

datatype observer =
    BodyObserver | MuteObserver | StatusBarObserver | SidePanelObserver
  | SelectedPanelObserver | HandObserver | CCObserver

text \<open>
  \<open>currentRoom\<close> is undefined until a room is entered. \<open>observing\<close> lists the
  mutation observers attached so far, each with the identity of the element it observes
  (identity 0 stands for \<open>document.body\<close>).
\<close>

record state =
  currentRoom :: "room option"
  isPresenting :: bool
  isSidePanelVisible :: bool
  ccButtonReady :: bool
  handButtonReady :: bool
  observing :: "(observer \<times> nat) list"

datatype error = TypeError

type_synonym outcome = "state \<times> action list \<times> error option"

type_synonym operation = "state \<Rightarrow> outcome"

definition skip :: operation where
  "skip s = (s, [], None)"

definition emit :: "action \<Rightarrow> operation" where
  "emit a s = (s, [a], None)"

definition throw :: "error \<Rightarrow> operation" where
  "throw e s = (s, [], Some e)"

definition modify :: "(state \<Rightarrow> state) \<Rightarrow> operation" where
  "modify f s = (f s, [], None)"

text \<open>Statement sequencing: the second statement runs only if the first did not throw.\<close>

definition andThen :: "operation \<Rightarrow> operation \<Rightarrow> operation" where
  "andThen f g s =
     (case f s of
        (s1, t1, Some e) \<Rightarrow> (s1, t1, Some e)
      | (s1, t1, None) \<Rightarrow> (case g s1 of (s2, t2, r) \<Rightarrow> (s2, t1 @ t2, r)))"

fun sequence :: "operation list \<Rightarrow> operation" where
  "sequence [] = skip"
| "sequence (f # fs) = andThen f (sequence fs)"

definition final :: "outcome \<Rightarrow> state" where
  "final r = fst r"

definition calls :: "outcome \<Rightarrow> action list" where
  "calls r = fst (snd r)"

definition thrown :: "outcome \<Rightarrow> error option" where
  "thrown r = snd (snd r)"

text \<open>\<open>observer.observe(target, opts)\<close> throws a TypeError when the target is null.\<close>

definition observe :: "observer \<Rightarrow> element option \<Rightarrow> operation" where
  "observe ob target =
     (case target of
        None \<Rightarrow> throw TypeError
      | Some e \<Rightarrow> modify (\<lambda>s. s\<lparr>observing := observing s @ [(ob, elem_id e)]\<rparr>))"

subsection \<open>Helper methods to get Meet UI elements\<close>

definition getStatusBar :: "document \<Rightarrow> element option" where
  "getStatusBar d = querySelector d ''[jsname=EaZ7Cc]''"

definition getMicButton :: "document \<Rightarrow> element option" where
  "getMicButton d =
     (case querySelector d ''[jsname=Dg9Wp]'' of None \<Rightarrow> None | Some e \<Rightarrow> firstChild e)"

definition getCamButton :: "document \<Rightarrow> element option" where
  "getCamButton d =
     (case querySelector d ''[jsname=R3GXJb]'' of None \<Rightarrow> None | Some e \<Rightarrow> firstChild e)"

definition getHandButton :: "document \<Rightarrow> element option" where
  "getHandButton d = querySelector d ''.p2SYhf''"

definition getCCButton :: "document \<Rightarrow> element option" where
  "getCCButton d = querySelector d ''.Q8K3Le''"

definition getStopPresentingButton :: "document \<Rightarrow> element option" where
  "getStopPresentingButton d = querySelector d ''[jsname=PTpBtc]''"

subsection \<open>Drawing icons on the StreamDeck buttons\<close>

text \<open>
  \<open>chrome.runtime.getURL\<close> prefixes the path with the origin of the extension, which
  is left out here.
\<close>

definition getURL :: "string \<Rightarrow> string" where
  "getURL iconName = ''ico-svg/'' @ iconName @ ''.svg''"

definition drawButton :: "env \<Rightarrow> string \<Rightarrow> operation" where
  "drawButton e iconName =
     (if \<not> isConnected (deck e) then skip
      else let buttonId = buttonNameToId (deck e) iconName in
        if buttonId < 0 then skip
        else emit (FillURL buttonId (getURL iconName) True))"

definition resetButtons :: "env \<Rightarrow> operation" where
  "resetButtons e = (if \<not> isConnected (deck e) then skip else emit ClearAllButtons)"

definition drawHueButtons :: "env \<Rightarrow> operation" where
  "drawHueButtons e =
     (if \<not> isConnected (deck e) then skip
      else if hueLights e = None then skip
      else andThen (drawButton e ''light-on'') (drawButton e ''light-off''))"

text \<open>\<open>this.#hueLights.on(v)\<close>: a TypeError when there is no Hue helper.\<close>

definition hueOn :: "env \<Rightarrow> bool \<Rightarrow> operation" where
  "hueOn e v = (case hueLights e of None \<Rightarrow> throw TypeError | Some h \<Rightarrow> emit (HueOn v))"

text \<open>
  The last statement of every enter-room method:
  \<open>if (this.#hueLights?.auto) { this.#hueLights.on(false); }\<close>.
\<close>

definition autoLightsOff :: "env \<Rightarrow> operation" where
  "autoLightsOff e =
     (case hueLights e of
        None \<Rightarrow> skip
      | Some h \<Rightarrow> if auto h then hueOn e False else skip)"

subsection \<open>Methods that check the state of the meeting and update buttons\<close>

definition updateIsPresenting :: "env \<Rightarrow> document \<Rightarrow> operation" where
  "updateIsPresenting e d s =
     (let newVal = (getStopPresentingButton d \<noteq> None) in
      if isPresenting s = newVal then skip s
      else andThen (modify (\<lambda>s. s\<lparr>isPresenting := newVal\<rparr>))
             (drawButton e (if newVal then ''present-stop'' else ''blank'')) s)"

definition updateIsMicMuted :: "env \<Rightarrow> document \<Rightarrow> operation" where
  "updateIsMicMuted e d =
     (case getMicButton d of
        None \<Rightarrow> skip
      | Some button \<Rightarrow>
          drawButton e (if getAttribute button ''data-is-muted'' = Some ''true''
                        then ''mic-disabled'' else ''mic''))"

definition updateIsCamMuted :: "env \<Rightarrow> document \<Rightarrow> operation" where
  "updateIsCamMuted e d =
     (case getCamButton d of
        None \<Rightarrow> skip
      | Some button \<Rightarrow>
          drawButton e (if getAttribute button ''data-is-muted'' = Some ''true''
                        then ''cam-disabled'' else ''cam''))"

definition updateHandState :: "env \<Rightarrow> document \<Rightarrow> operation" where
  "updateHandState e d =
     (case getHandButton d of
        None \<Rightarrow> skip
      | Some elem \<Rightarrow> drawButton e (if contains elem ''SNTzF'' then ''hand-raised'' else ''hand''))"

definition updateCCState :: "env \<Rightarrow> document \<Rightarrow> operation" where
  "updateCCState e d =
     (case getCCButton d of
        None \<Rightarrow> skip
      | Some elem \<Rightarrow> drawButton e (if contains elem ''o7y9G'' then ''cc-on'' else ''cc''))"

text \<open>
  The first three statements of \<open>#updateSidePanel\<close>: the \<open>data-tab-id\<close> of the tab
  with \<open>aria-selected=true\<close> inside the picker, undefined when either is missing.
\<close>

definition selectedTabId :: "document \<Rightarrow> string option" where
  "selectedTabId d =
     (case querySelector d ''[jsname=I0Fcpe]'' of
        None \<Rightarrow> None
      | Some picker \<Rightarrow>
          (case elemQuerySelectorAttr picker ''aria-selected'' ''true'' of
             None \<Rightarrow> None
           | Some selected \<Rightarrow> getAttribute selected ''data-tab-id''))"

definition updateSidePanel :: "env \<Rightarrow> document \<Rightarrow> operation" where
  "updateSidePanel e d =
     (let selectedId = selectedTabId d;
          userIcon = (if selectedId = Some ''1'' then ''users-open'' else ''users'');
          chatIcon = (if selectedId = Some ''2'' then ''chat-open'' else ''chat'')
      in andThen (drawButton e userIcon) (drawButton e chatIcon))"

subsection \<open>Setting up the hand and closed-caption watchers\<close>

definition setupHandButton :: "env \<Rightarrow> document \<Rightarrow> operation" where
  "setupHandButton e d =
     sequence
       [modify (\<lambda>s. s\<lparr>handButtonReady := True\<rparr>),
        observe HandObserver (getHandButton d),
        updateHandState e d]"

definition setupCCButton :: "env \<Rightarrow> document \<Rightarrow> operation" where
  "setupCCButton e d =
     sequence
       [modify (\<lambda>s. s\<lparr>ccButtonReady := True\<rparr>),
        observe CCObserver (getCCButton d),
        updateCCState e d]"

subsection \<open>Methods that interact with Meet UI elements\<close>

definition click :: "element \<Rightarrow> operation" where
  "click e = emit (Click (elem_id e))"

definition tapElement :: "document \<Rightarrow> string \<Rightarrow> operation" where
  "tapElement d sel = (case querySelector d sel of None \<Rightarrow> skip | Some elem \<Rightarrow> click elem)"

definition tapStartInstantMeeting :: "document \<Rightarrow> operation" where
  "tapStartInstantMeeting d = tapElement d ''[jsname=CuSyi]''"

definition tapStartNextMeeting :: "document \<Rightarrow> operation" where
  "tapStartNextMeeting d = tapElement d ''[data-default-focus=true]''"

definition tapEnterMeeting :: "document \<Rightarrow> operation" where
  "tapEnterMeeting d = tapElement d ''[jsname=Qx7uuf]''"

definition tapMic :: "document \<Rightarrow> operation" where
  "tapMic d = (case getMicButton d of None \<Rightarrow> skip | Some button \<Rightarrow> click button)"

definition tapCam :: "document \<Rightarrow> operation" where
  "tapCam d = (case getCamButton d of None \<Rightarrow> skip | Some button \<Rightarrow> click button)"

definition tapHand :: "document \<Rightarrow> operation" where
  "tapHand d =
     (case (case getHandButton d of None \<Rightarrow> None | Some h \<Rightarrow> firstChild h) of
        None \<Rightarrow> skip
      | Some button \<Rightarrow> click button)"

definition tapCC :: "document \<Rightarrow> operation" where
  "tapCC d =
     (case (case getCCButton d of None \<Rightarrow> None | Some c \<Rightarrow> firstChild c) of
        None \<Rightarrow> skip
      | Some button \<Rightarrow> click button)"

definition tapClosePanel :: "document \<Rightarrow> operation" where
  "tapClosePanel d = tapElement d ''[jscontroller=soHxf]''"

text \<open>
  \<open>#tapUsers\<close> and \<open>#tapChat\<close> call \<open>getAttribute\<close> and \<open>click\<close> on the tab button
  without testing it: on a null button either call is a TypeError. The \<open>&&\<close> reads the
  attribute only when the panel element exists.
\<close>

definition tapUsers :: "document \<Rightarrow> operation" where
  "tapUsers d =
     (let panelElem = querySelector d ''[jsname=Yz8Ubc]'';
          userButton = querySelector d ''[data-tab-id=\"1\"]''
      in if panelElem \<noteq> None then
           (case userButton of
              None \<Rightarrow> throw TypeError
            | Some button \<Rightarrow>
                if getAttribute button ''aria-expanded'' = Some ''true''
                then tapClosePanel d
                else click button)
         else
           (case userButton of
              None \<Rightarrow> throw TypeError
            | Some button \<Rightarrow> click button))"

definition tapChat :: "document \<Rightarrow> operation" where
  "tapChat d =
     (let panelElem = querySelector d ''[jsname=Yz8Ubc]'';
          chatButton = querySelector d ''[data-tab-id=\"2\"]''
      in if panelElem \<noteq> None then
           (case chatButton of
              None \<Rightarrow> throw TypeError
            | Some button \<Rightarrow>
                if getAttribute button ''aria-expanded'' = Some ''true''
                then tapClosePanel d
                else click button)
         else
           (case chatButton of
              None \<Rightarrow> throw TypeError
            | Some button \<Rightarrow> click button))"

definition tapStopPresenting :: "document \<Rightarrow> operation" where
  "tapStopPresenting d =
     (case getStopPresentingButton d of None \<Rightarrow> skip | Some button \<Rightarrow> click button)"

definition tapHangUp :: "document \<Rightarrow> operation" where
  "tapHangUp d = tapElement d ''[jsname=CQylAd]''"

definition tapRejoin :: "document \<Rightarrow> operation" where
  "tapRejoin d = tapElement d ''[jsname=oI7Fj] [role=button]''"

definition tapHome :: "document \<Rightarrow> operation" where
  "tapHome d = tapElement d ''[jsname=WIVZEd] [role=button]''"

subsection \<open>Methods to set up rooms\<close>

definition enterLobby :: "env \<Rightarrow> operation" where
  "enterLobby e s =
     (if currentRoom s = Some lobby then skip s
      else sequence
        [modify (\<lambda>s. s\<lparr>currentRoom := Some lobby\<rparr>),
         resetButtons e,
         drawHueButtons e,
         drawButton e ''start-next'',
         drawButton e ''start-instant'',
         autoLightsOff e] s)"

definition enterGreenRoom :: "env \<Rightarrow> document \<Rightarrow> operation" where
  "enterGreenRoom e d s =
     (if currentRoom s = Some greenRoom then skip s
      else sequence
        [modify (\<lambda>s. s\<lparr>currentRoom := Some greenRoom\<rparr>),
         resetButtons e,
         drawHueButtons e,
         drawButton e ''enter-meeting'',
         updateIsMicMuted e d,
         updateIsCamMuted e d,
         autoLightsOff e] s)"

text \<open>
  \<open>#enterMeeting\<close> creates three observers and attaches two of them (to the status bar
  and to the side-panel container) before it clears and redraws the buttons. The
  selected-panel observer is attached later, by the side-panel observer.
\<close>

definition enterMeeting :: "env \<Rightarrow> document \<Rightarrow> operation" where
  "enterMeeting e d s =
     (if currentRoom s = Some meeting then skip s
      else sequence
        [modify (\<lambda>s. s\<lparr>currentRoom := Some meeting\<rparr>),
         observe StatusBarObserver (getStatusBar d),
         observe SidePanelObserver (querySelector d ''[jsname=o4MlPd]''),
         resetButtons e,
         drawHueButtons e,
         updateSidePanel e d,
         updateIsMicMuted e d,
         updateIsCamMuted e d,
         updateHandState e d,
         updateCCState e d,
         drawButton e ''end-call'',
         autoLightsOff e] s)"

definition enterExitHall :: "env \<Rightarrow> operation" where
  "enterExitHall e s =
     (if currentRoom s = Some exitHall then skip s
      else sequence
        [modify (\<lambda>s. s\<lparr>currentRoom := Some exitHall\<rparr>),
         resetButtons e,
         drawHueButtons e,
         drawButton e ''rejoin'',
         drawButton e ''home'',
         autoLightsOff e] s)"

subsection \<open>The observer callbacks\<close>

definition bodyObserver :: "env \<Rightarrow> document \<Rightarrow> operation" where
  "bodyObserver e d =
     andThen
       (if querySelector d ''div[data-second-screen]'' \<noteq> None then enterMeeting e d
        else if querySelector d ''.KWIIWd'' \<noteq> None then enterGreenRoom e d
        else if querySelector d ''.CRFCdf'' \<noteq> None then enterExitHall e
        else skip)
       (updateIsPresenting e d)"

definition muteObserver :: "env \<Rightarrow> document \<Rightarrow> operation" where
  "muteObserver e d = andThen (updateIsMicMuted e d) (updateIsCamMuted e d)"

text \<open>
  A mutation record, as far as the status-bar observer reads it; \<open>statusBarChange\<close> is
  the body of the observer's loop over the records.
\<close>

record change =
  change_type :: string
  addedNodes_length :: nat

definition statusBarChange :: "env \<Rightarrow> document \<Rightarrow> change \<Rightarrow> operation" where
  "statusBarChange e d c =
     (if change_type c = ''childList'' \<and> addedNodes_length c > 0 then
        andThen
          (\<lambda>s. if \<not> handButtonReady s \<and> getHandButton d \<noteq> None
                then setupHandButton e d s else skip s)
          (\<lambda>s. if \<not> ccButtonReady s \<and> getCCButton d \<noteq> None
                then setupCCButton e d s else skip s)
      else skip)"

fun statusBarObserver :: "env \<Rightarrow> document \<Rightarrow> change list \<Rightarrow> operation" where
  "statusBarObserver e d [] = skip"
| "statusBarObserver e d (c # cs) =
     andThen (statusBarChange e d c) (statusBarObserver e d cs)"

definition selectedPanelObserver :: "env \<Rightarrow> document \<Rightarrow> operation" where
  "selectedPanelObserver e d = updateSidePanel e d"

definition sidePanelObserver :: "env \<Rightarrow> document \<Rightarrow> operation" where
  "sidePanelObserver e d s =
     (let picker = querySelector d ''[jsname=I0Fcpe]'';
          newVal = (picker \<noteq> None)
      in if isSidePanelVisible s = newVal then skip s
         else sequence
           [modify (\<lambda>s. s\<lparr>isSidePanelVisible := newVal\<rparr>),
            updateSidePanel e d,
            if newVal then observe SelectedPanelObserver picker else skip] s)"

definition handObserver :: "env \<Rightarrow> document \<Rightarrow> operation" where
  "handObserver e d = updateHandState e d"

definition ccObserver :: "env \<Rightarrow> document \<Rightarrow> operation" where
  "ccObserver e d = updateCCState e d"

subsection \<open>Handling StreamDeck button presses\<close>

definition handleStreamDeckPress :: "env \<Rightarrow> document \<Rightarrow> int \<Rightarrow> operation" where
  "handleStreamDeckPress e d buttonId s =
     (let id = buttonNameToId (deck e) in
      if buttonId = id ''light-on'' then hueOn e True s
      else if buttonId = id ''light-off'' then hueOn e False s
      else if currentRoom s = Some lobby then
        (if buttonId = id ''start-next'' then tapStartNextMeeting d s
         else if buttonId = id ''start-instant'' then tapStartInstantMeeting d s
         else skip s)
      else if currentRoom s = Some greenRoom then
        (if buttonId = id ''enter-meeting'' then tapEnterMeeting d s
         else if buttonId = id ''mic'' then tapMic d s
         else if buttonId = id ''cam'' then tapCam d s
         else skip s)
      else if currentRoom s = Some meeting then
        (if buttonId = id ''users'' then tapUsers d s
         else if buttonId = id ''chat'' then tapChat d s
         else if buttonId = id ''present-stop'' then tapStopPresenting d s
         else if buttonId = id ''mic'' then tapMic d s
         else if buttonId = id ''cam'' then tapCam d s
         else if buttonId = id ''hand'' then tapHand d s
         else if buttonId = id ''cc'' then tapCC d s
         else if buttonId = id ''end-call'' then tapHangUp d s
         else skip s)
      else if currentRoom s = Some exitHall then
        (if buttonId = id ''rejoin'' then tapRejoin d s
         else if buttonId = id ''home'' then tapHome d s
         else skip s)
      else skip s)"

subsection \<open>The constructor and the event loop\<close>

definition initial :: state where
  "initial = \<lparr>currentRoom = None, isPresenting = False, isSidePanelVisible = False,
              ccButtonReady = False, handButtonReady = False, observing = []\<rparr>"

text \<open>
  The constructor registers the key listener, then either enters the lobby and returns
  (path \<open>/\<close>) or attaches the body observer and the mute observer to \<open>document.body\<close>.
\<close>

definition construct :: "env \<Rightarrow> string \<Rightarrow> outcome" where
  "construct e pathname =
     (if pathname = ''/'' then enterLobby e initial
      else modify (\<lambda>s. s\<lparr>observing := observing s @ [(BodyObserver, 0), (MuteObserver, 0)]\<rparr>)
             initial)"

text \<open>
  What the browser can deliver to the wrapper: a key press of the device, or the callback
  of a mutation observer. A callback runs only if an observer of its kind is attached.
  An exception leaving a callback is reported by the browser and goes no further; what
  the callback did before it stays.
\<close>

datatype input =
    KeyDown int
  | BodyMutation
  | MuteMutation
  | StatusBarMutation "change list"
  | SidePanelMutation
  | SelectedPanelMutation
  | HandMutation
  | CCMutation

definition attached :: "observer \<Rightarrow> state \<Rightarrow> bool" where
  "attached ob s = (ob \<in> fst ` set (observing s))"

definition whenAttached :: "observer \<Rightarrow> operation \<Rightarrow> operation" where
  "whenAttached ob f s = (if attached ob s then f s else skip s)"

fun deliver :: "env \<Rightarrow> document \<Rightarrow> input \<Rightarrow> operation" where
  "deliver e d (KeyDown buttonId) = handleStreamDeckPress e d buttonId"
| "deliver e d BodyMutation = whenAttached BodyObserver (bodyObserver e d)"
| "deliver e d MuteMutation = whenAttached MuteObserver (muteObserver e d)"
| "deliver e d (StatusBarMutation cs) = whenAttached StatusBarObserver (statusBarObserver e d cs)"
| "deliver e d SidePanelMutation = whenAttached SidePanelObserver (sidePanelObserver e d)"
| "deliver e d SelectedPanelMutation =
     whenAttached SelectedPanelObserver (selectedPanelObserver e d)"
| "deliver e d HandMutation = whenAttached HandObserver (handObserver e d)"
| "deliver e d CCMutation = whenAttached CCObserver (ccObserver e d)"

text \<open>A run: each event comes with the device, lights and page as they are at that time.\<close>

fun run :: "(env \<times> document \<times> input) list \<Rightarrow> state \<Rightarrow> state" where
  "run [] s = s"
| "run ((e, d, i) # evs) s = run evs (final (deliver e d i s))"

section \<open>Notions used to state the properties\<close>

text \<open>
  An operation that only makes calls: it leaves the state alone and does not throw.
\<close>

definition perform :: "action list \<Rightarrow> operation" where
  "perform t s = (s, t, None)"

text \<open>
  The device request that drawing icon \<open>iconName\<close> amounts to: one
  \<open>fillURL\<close> when the device is connected and the layout has the icon, nothing otherwise.
\<close>

definition fill :: "env \<Rightarrow> string \<Rightarrow> action list" where
  "fill e iconName =
     (if isConnected (deck e) \<and> 0 \<le> buttonNameToId (deck e) iconName
      then [FillURL (buttonNameToId (deck e) iconName) (getURL iconName) True] else [])"

text \<open>The button names that \<open>#handleStreamDeckPress\<close> binds to an action in a room.\<close>

fun boundNames :: "room option \<Rightarrow> string list" where
  "boundNames (Some lobby) = [''start-next'', ''start-instant'']"
| "boundNames (Some greenRoom) = [''enter-meeting'', ''mic'', ''cam'']"
| "boundNames (Some meeting) =
     [''users'', ''chat'', ''present-stop'', ''mic'', ''cam'', ''hand'', ''cc'', ''end-call'']"
| "boundNames (Some exitHall) = [''rejoin'', ''home'']"
| "boundNames None = []"

subsection \<open>Example inputs\<close>

text \<open>
  A connected device whose layout has every icon the wrapper draws except \<open>blank\<close>,
  the same device disconnected, and a Hue helper in auto mode.
\<close>

definition layout1 :: "string \<Rightarrow> int" where
  "layout1 n =
     (case map_of
        [(''mic'', 0), (''mic-disabled'', 0), (''cam'', 1), (''cam-disabled'', 1),
         (''users'', 2), (''users-open'', 2), (''chat'', 3), (''chat-open'', 3),
         (''end-call'', 4), (''hand'', 5), (''hand-raised'', 5), (''cc'', 6), (''cc-on'', 6),
         (''light-on'', 7), (''light-off'', 8), (''present-stop'', 9),
         (''start-next'', 10), (''start-instant'', 11), (''enter-meeting'', 12),
         (''rejoin'', 13), (''home'', 14)] n
      of None \<Rightarrow> - 1 | Some i \<Rightarrow> i)"

definition env1 :: env where
  "env1 = \<lparr>deck = \<lparr>isConnected = True, buttonNameToId = layout1\<rparr>, hueLights = None\<rparr>"

definition envOff :: env where
  "envOff = \<lparr>deck = \<lparr>isConnected = False, buttonNameToId = layout1\<rparr>, hueLights = None\<rparr>"

definition envHue :: env where
  "envHue = \<lparr>deck = \<lparr>isConnected = True, buttonNameToId = layout1\<rparr>,
             hueLights = Some \<lparr>auto = True\<rparr>\<rparr>"

text \<open>
  A meeting page as it is when the meeting screen first shows: markers, status bar,
  side-panel container, a muted mic and a live camera, the participants tab open; the
  hand and captions buttons are not rendered yet.
\<close>

definition usersTab :: element where
  "usersTab = Element 20 [(''data-tab-id'', ''1''), (''aria-expanded'', ''true'')] [] []"

definition chatTab :: element where
  "chatTab = Element 21 [(''data-tab-id'', ''2''), (''aria-expanded'', ''false'')] [] []"

definition picker1 :: element where
  "picker1 = Element 30 [(''jsname'', ''I0Fcpe'')] []
     [Element 31 [(''data-tab-id'', ''1''), (''aria-selected'', ''true'')] [] [],
      Element 32 [(''data-tab-id'', ''2''), (''aria-selected'', ''false'')] [] []]"

definition pageMeeting :: document where
  "pageMeeting = map_of
     [(''div[data-second-screen]'', Element 1 [(''data-second-screen'', ''1'')] [] []),
      (''[jsname=EaZ7Cc]'', Element 2 [(''jsname'', ''EaZ7Cc'')] [] []),
      (''[jsname=o4MlPd]'', Element 3 [(''jsname'', ''o4MlPd'')] [] []),
      (''[jsname=Dg9Wp]'', Element 4 [(''jsname'', ''Dg9Wp'')] []
         [Element 5 [(''data-is-muted'', ''true'')] [] []]),
      (''[jsname=R3GXJb]'', Element 6 [(''jsname'', ''R3GXJb'')] []
         [Element 7 [(''data-is-muted'', ''false'')] [] []]),
      (''[jsname=I0Fcpe]'', picker1),
      (''[jsname=Yz8Ubc]'', Element 8 [(''jsname'', ''Yz8Ubc'')] [] []),
      (''[data-tab-id=\"1\"]'', usersTab),
      (''[data-tab-id=\"2\"]'', chatTab),
      (''[jscontroller=soHxf]'', Element 9 [(''jscontroller'', ''soHxf'')] [] [])]"

text \<open>The same page once the hand (raised) and captions buttons have been rendered.\<close>

definition pageMeetingFull :: document where
  "pageMeetingFull = pageMeeting
     (''.p2SYhf'' \<mapsto> Element 10 [] [''p2SYhf'', ''SNTzF''] [Element 11 [] [] []],
      ''.Q8K3Le'' \<mapsto> Element 12 [] [''Q8K3Le''] [Element 13 [] [] []])"

text \<open>The full page while the user is presenting.\<close>

definition pagePresenting :: document where
  "pagePresenting = pageMeetingFull
     (''[jsname=PTpBtc]'' \<mapsto> Element 14 [(''jsname'', ''PTpBtc'')] [] [])"

text \<open>The meeting page without the two tab buttons, and without the close-panel control.\<close>

definition pageNoTabs :: document where
  "pageNoTabs = pageMeeting (''[data-tab-id=\"1\"]'' := None, ''[data-tab-id=\"2\"]'' := None)"

definition pageNoClose :: document where
  "pageNoClose = pageMeeting (''[jscontroller=soHxf]'' := None)"

definition inMeeting :: state where
  "inMeeting = initial\<lparr>currentRoom := Some meeting\<rparr>"

subsection \<open>Invariants of operations\<close>

text \<open>
  \<open>preserves P f\<close>: whatever \<open>f\<close> does, and whether or not it throws, it leaves a state
  satisfying \<open>P\<close> when started in one.
\<close>

definition preserves :: "(state \<Rightarrow> bool) \<Rightarrow> operation \<Rightarrow> bool" where
  "preserves P f = (\<forall>s. P s \<longrightarrow> P (final (f s)))"

text \<open>
  A property of the state is stable when it survives the writes that the feature
  watchers make (\<open>isPresenting\<close>, \<open>isSidePanelVisible\<close>, attaching the selected-panel
  observer, and the setup of the hand or captions watcher from a state whose ready flag is
  false), and room-stable when it survives the writes of entering a room.
\<close>

definition stable :: "(state \<Rightarrow> bool) \<Rightarrow> bool" where
  "stable P =
     (\<forall>s. P s \<longrightarrow>
        (\<forall>b. P (s\<lparr>isPresenting := b\<rparr>)) \<and>
        (\<forall>b. P (s\<lparr>isSidePanelVisible := b\<rparr>)) \<and>
        (\<forall>x. P (s\<lparr>observing := observing s @ [(SelectedPanelObserver, x)]\<rparr>)) \<and>
        (\<forall>x. \<not> handButtonReady s \<longrightarrow>
           P (s\<lparr>handButtonReady := True,
                 observing := observing s @ [(HandObserver, x)]\<rparr>)) \<and>
        (\<forall>x. \<not> ccButtonReady s \<longrightarrow>
           P (s\<lparr>ccButtonReady := True,
                 observing := observing s @ [(CCObserver, x)]\<rparr>)))"

definition roomStable :: "(state \<Rightarrow> bool) \<Rightarrow> bool" where
  "roomStable P =
     (\<forall>s. P s \<longrightarrow>
        (\<forall>r. P (s\<lparr>currentRoom := r\<rparr>)) \<and>
        (\<forall>x. P (s\<lparr>observing := observing s @ [(StatusBarObserver, x)]\<rparr>)) \<and>
        (\<forall>x. P (s\<lparr>observing := observing s @ [(SidePanelObserver, x)]\<rparr>)))"

text \<open>The number of attached observers of a kind, and the invariant of the lazy watchers.\<close>

definition watchers :: "observer \<Rightarrow> state \<Rightarrow> nat" where
  "watchers ob s = count_list (map fst (observing s)) ob"

definition attachedOnce :: "state \<Rightarrow> bool" where
  "attachedOnce s =
     (watchers HandObserver s \<le> 1 \<and> (\<not> handButtonReady s \<longrightarrow> watchers HandObserver s = 0) \<and>
      watchers CCObserver s \<le> 1 \<and> (\<not> ccButtonReady s \<longrightarrow> watchers CCObserver s = 0))"

text \<open>
  The room classifier as the specification words it: the meeting marker first, then the
  green-room marker, then the exit-hall marker. \<open>lastMatch\<close> is the room of the last body
  mutation of a run whose document matched a marker, starting from room \<open>r\<close>.
\<close>

definition classify :: "document \<Rightarrow> room option" where
  "classify d =
     (if querySelector d ''div[data-second-screen]'' \<noteq> None then Some meeting
      else if querySelector d ''.KWIIWd'' \<noteq> None then Some greenRoom
      else if querySelector d ''.CRFCdf'' \<noteq> None then Some exitHall
      else None)"

fun lastMatch :: "room option \<Rightarrow> (env \<times> document \<times> input) list \<Rightarrow> room option" where
  "lastMatch r [] = r"
| "lastMatch r ((e, d, i) # evs) =
     lastMatch (if i = BodyMutation then (case classify d of None \<Rightarrow> r | Some x \<Rightarrow> Some x)
                else r) evs"

subsection \<open>An example session\<close>

text \<open>
  The exit page, a mutation record of a child list with one added node, and a session:
  meeting entered, the hand and captions buttons rendered, the call left, the meeting
  entered again, two more child-list records in the status bar.
\<close>

definition pageExit :: document where
  "pageExit = map_of [(''.CRFCdf'', Element 40 [] [''CRFCdf''] [])]"

definition childAdded :: change where
  "childAdded = \<lparr>change_type = ''childList'', addedNodes_length = 1\<rparr>"

definition session1 :: "(env \<times> document \<times> input) list" where
  "session1 =
     [(env1, pageMeeting, BodyMutation),
      (env1, pageMeetingFull, StatusBarMutation [childAdded]),
      (env1, pageExit, BodyMutation),
      (env1, pageMeetingFull, BodyMutation),
      (env1, pageMeetingFull, StatusBarMutation [childAdded, childAdded])]"

section \<open>Properties\<close>

subsection \<open>Operations that only make calls\<close>

lemma skip_perform: "skip = perform []"
  by (rule ext) (simp add: skip_def perform_def)

lemma emit_perform: "emit a = perform [a]"
  by (rule ext) (simp add: emit_def perform_def)

lemma andThen_perform [simp]: "andThen (perform a) (perform b) = perform (a @ b)"
  by (rule ext) (simp add: andThen_def perform_def)

lemma andThen_perform_left:
  "andThen (perform a) f s = (case f s of (s2, t2, r) \<Rightarrow> (s2, a @ t2, r))"
  by (simp add: andThen_def perform_def)

lemma andThen_modify: "andThen (modify g) f s = f (g s)"
  by (simp add: andThen_def modify_def split: prod.splits)

lemma andThen_throw [simp]: "andThen (throw x) f = throw x"
  by (rule ext) (simp add: andThen_def throw_def)

lemma drawButton_perform: "drawButton e n = perform (fill e n)"
  by (rule ext) (simp add: drawButton_def fill_def skip_perform emit_perform Let_def)

lemma resetButtons_perform:
  "resetButtons e = perform (if isConnected (deck e) then [ClearAllButtons] else [])"
  by (simp add: resetButtons_def skip_perform emit_perform)

lemma drawHueButtons_perform:
  "drawHueButtons e =
     perform (if isConnected (deck e) \<and> hueLights e \<noteq> None
              then fill e ''light-on'' @ fill e ''light-off'' else [])"
  by (simp add: drawHueButtons_def skip_perform drawButton_perform)

lemma autoLightsOff_perform:
  "autoLightsOff e =
     perform (case hueLights e of None \<Rightarrow> [] | Some h \<Rightarrow> if auto h then [HueOn False] else [])"
  by (simp add: autoLightsOff_def hueOn_def skip_perform emit_perform split: option.splits)

lemma updateSidePanel_perform:
  "updateSidePanel e d =
     perform (fill e (if selectedTabId d = Some ''1'' then ''users-open'' else ''users'') @
              fill e (if selectedTabId d = Some ''2'' then ''chat-open'' else ''chat''))"
  by (simp add: updateSidePanel_def drawButton_perform Let_def)

lemma updateIsMicMuted_perform:
  "updateIsMicMuted e d =
     perform (case getMicButton d of None \<Rightarrow> []
              | Some b \<Rightarrow> fill e (if getAttribute b ''data-is-muted'' = Some ''true''
                                  then ''mic-disabled'' else ''mic''))"
  by (simp add: updateIsMicMuted_def drawButton_perform skip_perform split: option.splits)

lemma updateIsCamMuted_perform:
  "updateIsCamMuted e d =
     perform (case getCamButton d of None \<Rightarrow> []
              | Some b \<Rightarrow> fill e (if getAttribute b ''data-is-muted'' = Some ''true''
                                  then ''cam-disabled'' else ''cam''))"
  by (simp add: updateIsCamMuted_def drawButton_perform skip_perform split: option.splits)

lemma updateHandState_perform:
  "updateHandState e d =
     perform (case getHandButton d of None \<Rightarrow> []
              | Some b \<Rightarrow> fill e (if contains b ''SNTzF'' then ''hand-raised'' else ''hand''))"
  by (simp add: updateHandState_def drawButton_perform skip_perform split: option.splits)

lemma updateCCState_perform:
  "updateCCState e d =
     perform (case getCCButton d of None \<Rightarrow> []
              | Some b \<Rightarrow> fill e (if contains b ''o7y9G'' then ''cc-on'' else ''cc''))"
  by (simp add: updateCCState_def drawButton_perform skip_perform split: option.splits)

lemmas perform_simps =
  drawButton_perform resetButtons_perform drawHueButtons_perform autoLightsOff_perform
  updateSidePanel_perform updateIsMicMuted_perform updateIsCamMuted_perform
  updateHandState_perform updateCCState_perform skip_perform

subsection \<open>Drawing a button\<close>

text \<open>
  C5. For every icon name, \<open>#drawButton\<close> issues the fill request exactly when the
  device is connected and the layout returns a non-negative button id; otherwise it makes
  no device call. In both cases it returns normally and leaves the tracker state as it was.
\<close>

theorem drawButton_fill_iff:
  "(calls (drawButton e iconName s) =
      [FillURL (buttonNameToId (deck e) iconName) (getURL iconName) True])
     = (isConnected (deck e) \<and> 0 \<le> buttonNameToId (deck e) iconName)
   \<and> (\<not> (isConnected (deck e) \<and> 0 \<le> buttonNameToId (deck e) iconName)
        \<longrightarrow> calls (drawButton e iconName s) = [])
   \<and> thrown (drawButton e iconName s) = None
   \<and> final (drawButton e iconName s) = s"
  by (simp add: drawButton_def skip_def emit_def calls_def thrown_def final_def Let_def)

theorem drawButton_fill_iff_witness:
  "calls (drawButton env1 ''cam'' initial) = [FillURL 1 ''ico-svg/cam.svg'' True]
   \<and> calls (drawButton env1 ''blank'' initial) = []"
  using drawButton_fill_iff [of env1 "''cam''" initial]
        drawButton_fill_iff [of env1 "''blank''" initial]
  by (simp add: env1_def layout1_def getURL_def)

subsection \<open>The side panel icons\<close>

text \<open>
  C6. On every side-panel update the two icons drawn are users-open and chat when the
  selected tab's \<open>data-tab-id\<close> is "1", users and chat-open when it is "2", and users
  and chat otherwise; the selected id is undefined when the picker is absent, and is read
  from the first tab with \<open>aria-selected=true\<close> when the picker is there. The update
  never throws and leaves the state as it was.
\<close>

theorem updateSidePanel_icons:
  "updateSidePanel e d s =
     (s,
      (if selectedTabId d = Some ''1'' then fill e ''users-open'' @ fill e ''chat''
       else if selectedTabId d = Some ''2'' then fill e ''users'' @ fill e ''chat-open''
       else fill e ''users'' @ fill e ''chat''),
      None)
   \<and> (querySelector d ''[jsname=I0Fcpe]'' = None \<longrightarrow> selectedTabId d = None)
   \<and> (\<forall>picker. querySelector d ''[jsname=I0Fcpe]'' = Some picker \<longrightarrow>
         selectedTabId d =
           (case elemQuerySelectorAttr picker ''aria-selected'' ''true'' of
              None \<Rightarrow> None
            | Some selected \<Rightarrow> getAttribute selected ''data-tab-id''))"
  by (simp add: updateSidePanel_perform perform_def selectedTabId_def)

lemma selectedTabId_pageMeeting: "selectedTabId pageMeeting = Some ''1''"
  by (simp add: selectedTabId_def pageMeeting_def querySelector_def picker1_def
      elemQuerySelectorAttr_def getAttribute_def)

lemma fill_env1:
  "fill env1 n = (if 0 \<le> layout1 n then [FillURL (layout1 n) (getURL n) True] else [])"
  by (simp add: fill_def env1_def)

theorem updateSidePanel_icons_witness:
  "calls (updateSidePanel env1 pageMeeting initial) =
     [FillURL 2 ''ico-svg/users-open.svg'' True, FillURL 3 ''ico-svg/chat.svg'' True]
   \<and> calls (updateSidePanel env1 Map.empty initial) =
     [FillURL 2 ''ico-svg/users.svg'' True, FillURL 3 ''ico-svg/chat.svg'' True]"
  using updateSidePanel_icons [of env1 pageMeeting initial]
        updateSidePanel_icons [of env1 Map.empty initial]
  by (simp add: calls_def selectedTabId_pageMeeting fill_env1 layout1_def getURL_def
      querySelector_def)

subsection \<open>Button presses\<close>

text \<open>
  C4. A press whose button id is neither the id of a light button nor the id of a name
  bound in the current room makes no call at all (no click, no light request), does not
  throw, and leaves the tracker state unchanged.
\<close>

theorem unbound_press_ignored:
  assumes "buttonId \<notin> buttonNameToId (deck e) `
       set (''light-on'' # ''light-off'' # boundNames (currentRoom s))"
  shows "handleStreamDeckPress e d buttonId s = (s, [], None)"
proof (cases "currentRoom s")
  case None
  with assms show ?thesis
    by (auto simp add: handleStreamDeckPress_def skip_def Let_def)
next
  case (Some r)
  with assms show ?thesis
    by (cases r) (auto simp add: handleStreamDeckPress_def skip_def Let_def)
qed

theorem unbound_press_ignored_witness:
  "handleStreamDeckPress env1 pageMeeting 10 inMeeting = (inMeeting, [], None)"
proof -
  have "(10::int) \<notin> buttonNameToId (deck env1) `
       set (''light-on'' # ''light-off'' # boundNames (currentRoom inMeeting))"
    by (simp add: env1_def inMeeting_def initial_def layout1_def)
  then show ?thesis by (rule unbound_press_ignored)
qed

subsection \<open>The users and chat toggles\<close>

lemma tapClosePanel_eq:
  "tapClosePanel d s =
     (case querySelector d ''[jscontroller=soHxf]'' of
        None \<Rightarrow> (s, [], None)
      | Some c \<Rightarrow> (s, [Click (elem_id c)], None))"
  by (simp add: tapClosePanel_def tapElement_def skip_def click_def emit_def
      split: option.splits)

text \<open>
  C7 (as the code has it). A users or chat press whose tab button is on the page reads
  that button's \<open>aria-expanded\<close> in the document of the press: when the panel element
  exists and the attribute is "true" the handler taps the close-panel control, which is a
  click when that control is on the page and nothing when it is not; otherwise it clicks
  the tab button.
\<close>

theorem tapUsers_tapChat_toggle:
  "(querySelector d ''[data-tab-id=\"1\"]'' = Some userButton \<longrightarrow>
      tapUsers d s =
        (if querySelector d ''[jsname=Yz8Ubc]'' \<noteq> None
            \<and> getAttribute userButton ''aria-expanded'' = Some ''true''
         then tapClosePanel d s
         else (s, [Click (elem_id userButton)], None)))
   \<and> (querySelector d ''[data-tab-id=\"2\"]'' = Some chatButton \<longrightarrow>
      tapChat d s =
        (if querySelector d ''[jsname=Yz8Ubc]'' \<noteq> None
            \<and> getAttribute chatButton ''aria-expanded'' = Some ''true''
         then tapClosePanel d s
         else (s, [Click (elem_id chatButton)], None)))
   \<and> tapClosePanel d s =
        (case querySelector d ''[jscontroller=soHxf]'' of
           None \<Rightarrow> (s, [], None)
         | Some c \<Rightarrow> (s, [Click (elem_id c)], None))"
  by (simp add: tapUsers_def tapChat_def tapClosePanel_eq click_def emit_def Let_def)

lemma pageMeeting_tabs:
  "querySelector pageMeeting ''[data-tab-id=\"1\"]'' = Some usersTab"
  "querySelector pageMeeting ''[data-tab-id=\"2\"]'' = Some chatTab"
  "querySelector pageMeeting ''[jsname=Yz8Ubc]'' = Some (Element 8 [(''jsname'', ''Yz8Ubc'')] [] [])"
  "querySelector pageMeeting ''[jscontroller=soHxf]'' =
     Some (Element 9 [(''jscontroller'', ''soHxf'')] [] [])"
  by (simp_all add: querySelector_def pageMeeting_def)

theorem tapUsers_tapChat_toggle_witness:
  "tapUsers pageMeeting inMeeting = (inMeeting, [Click 9], None)
   \<and> tapChat pageMeeting inMeeting = (inMeeting, [Click 21], None)"
  using tapUsers_tapChat_toggle [of pageMeeting usersTab inMeeting chatTab]
  by (simp add: pageMeeting_tabs getAttribute_def usersTab_def chatTab_def)

text \<open>
  With the panel element on the page and \<open>aria-expanded\<close> "true", but no close-panel
  control, the users press clicks nothing.
\<close>

theorem tapUsers_close_counterexample:
  "querySelector pageNoClose ''[jsname=Yz8Ubc]'' \<noteq> None
   \<and> querySelector pageNoClose ''[data-tab-id=\"1\"]'' = Some usersTab
   \<and> getAttribute usersTab ''aria-expanded'' = Some ''true''
   \<and> tapUsers pageNoClose inMeeting = (inMeeting, [], None)"
  by (simp add: tapUsers_def tapClosePanel_eq pageNoClose_def pageMeeting_def
      querySelector_def getAttribute_def usersTab_def Let_def)

subsection \<open>Missing elements\<close>

text \<open>
  C2. In the meeting room, on a page that has no tab buttons, the users press and the
  chat press (buttons 2 and 3 of the example layout) end in a TypeError instead of
  skipping the action.
\<close>

theorem tapUsers_tapChat_throw:
  "thrown (handleStreamDeckPress env1 pageNoTabs 2 inMeeting) = Some TypeError
   \<and> thrown (handleStreamDeckPress env1 pageNoTabs 3 inMeeting) = Some TypeError
   \<and> thrown (tapUsers pageNoTabs inMeeting) = Some TypeError
   \<and> thrown (tapChat pageNoTabs inMeeting) = Some TypeError"
  by (simp add: handleStreamDeckPress_def env1_def layout1_def inMeeting_def initial_def
      tapUsers_def tapChat_def pageNoTabs_def pageMeeting_def querySelector_def
      throw_def thrown_def Let_def)

subsection \<open>Which updates compare with the last known value\<close>

lemma updateIsPresenting_eq:
  "updateIsPresenting e d s =
     (if isPresenting s = (getStopPresentingButton d \<noteq> None) then (s, [], None)
      else (s\<lparr>isPresenting := (getStopPresentingButton d \<noteq> None)\<rparr>,
            fill e (if getStopPresentingButton d \<noteq> None then ''present-stop'' else ''blank''),
            None))"
  by (cases "getStopPresentingButton d")
     (simp_all add: updateIsPresenting_def Let_def skip_def andThen_modify drawButton_perform
      perform_def)

lemma sidePanelObserver_unchanged:
  "isSidePanelVisible s = (querySelector d ''[jsname=I0Fcpe]'' \<noteq> None)
   \<Longrightarrow> sidePanelObserver e d s = (s, [], None)"
  by (simp add: sidePanelObserver_def Let_def skip_def)

text \<open>
  C8 (as the code has it). The mic, cam, hand and captions updates draw their icon on
  every call in which the element exists, whatever the state. The presenting update
  compares the new value with \<open>isPresenting\<close> and does nothing when they agree.
  \<open>#updateSidePanel\<close> itself compares nothing and draws both icons on every call; the
  comparison for the side panel is made by the side-panel observer, on the presence of
  the picker against \<open>isSidePanelVisible\<close>, before it calls the update.
\<close>

theorem redraw_policy:
  "(getMicButton d = Some mic \<longrightarrow>
      updateIsMicMuted e d s =
        (s, fill e (if getAttribute mic ''data-is-muted'' = Some ''true''
                    then ''mic-disabled'' else ''mic''), None))
   \<and> (getCamButton d = Some cam \<longrightarrow>
      updateIsCamMuted e d s =
        (s, fill e (if getAttribute cam ''data-is-muted'' = Some ''true''
                    then ''cam-disabled'' else ''cam''), None))
   \<and> (getHandButton d = Some hand \<longrightarrow>
      updateHandState e d s =
        (s, fill e (if contains hand ''SNTzF'' then ''hand-raised'' else ''hand''), None))
   \<and> (getCCButton d = Some cc \<longrightarrow>
      updateCCState e d s =
        (s, fill e (if contains cc ''o7y9G'' then ''cc-on'' else ''cc''), None))
   \<and> (isPresenting s = (getStopPresentingButton d \<noteq> None) \<longrightarrow>
      updateIsPresenting e d s = (s, [], None))
   \<and> (isPresenting s \<noteq> (getStopPresentingButton d \<noteq> None) \<longrightarrow>
      updateIsPresenting e d s =
        (s\<lparr>isPresenting := (getStopPresentingButton d \<noteq> None)\<rparr>,
         fill e (if getStopPresentingButton d \<noteq> None then ''present-stop'' else ''blank''),
         None))
   \<and> updateSidePanel e d s =
        (s, fill e (if selectedTabId d = Some ''1'' then ''users-open'' else ''users'') @
            fill e (if selectedTabId d = Some ''2'' then ''chat-open'' else ''chat''), None)
   \<and> (isSidePanelVisible s = (querySelector d ''[jsname=I0Fcpe]'' \<noteq> None) \<longrightarrow>
      sidePanelObserver e d s = (s, [], None))"
  by (cases "getStopPresentingButton d")
     (simp_all add: updateIsMicMuted_perform updateIsCamMuted_perform updateHandState_perform
      updateCCState_perform updateSidePanel_perform perform_def updateIsPresenting_eq
      sidePanelObserver_unchanged)

lemma pageMeetingFull_buttons:
  "getMicButton pageMeetingFull = Some (Element 5 [(''data-is-muted'', ''true'')] [] [])"
  "getCamButton pageMeetingFull = Some (Element 7 [(''data-is-muted'', ''false'')] [] [])"
  "getHandButton pageMeetingFull = Some (Element 10 [] [''p2SYhf'', ''SNTzF''] [Element 11 [] [] []])"
  "getCCButton pageMeetingFull = Some (Element 12 [] [''Q8K3Le''] [Element 13 [] [] []])"
  "getStopPresentingButton pageMeetingFull = None"
  "querySelector pageMeetingFull ''[jsname=I0Fcpe]'' = Some picker1"
  "getStatusBar pageMeetingFull = Some (Element 2 [(''jsname'', ''EaZ7Cc'')] [] [])"
  "querySelector pageMeetingFull ''[jsname=o4MlPd]'' = Some (Element 3 [(''jsname'', ''o4MlPd'')] [] [])"
  by (simp_all add: getMicButton_def getCamButton_def getHandButton_def getCCButton_def
      getStopPresentingButton_def getStatusBar_def
      querySelector_def pageMeetingFull_def pageMeeting_def firstChild_def)

lemma pagePresenting_button:
  "getStopPresentingButton pagePresenting = Some (Element 14 [(''jsname'', ''PTpBtc'')] [] [])"
  by (simp add: getStopPresentingButton_def querySelector_def pagePresenting_def)

theorem redraw_policy_witness:
  "updateIsMicMuted env1 pageMeetingFull initial =
     (initial, [FillURL 0 ''ico-svg/mic-disabled.svg'' True], None)
   \<and> updateIsCamMuted env1 pageMeetingFull initial =
     (initial, [FillURL 1 ''ico-svg/cam.svg'' True], None)
   \<and> updateHandState env1 pageMeetingFull initial =
     (initial, [FillURL 5 ''ico-svg/hand-raised.svg'' True], None)
   \<and> updateCCState env1 pageMeetingFull initial =
     (initial, [FillURL 6 ''ico-svg/cc.svg'' True], None)
   \<and> updateIsPresenting env1 pageMeetingFull initial = (initial, [], None)
   \<and> updateIsPresenting env1 pagePresenting initial =
     (initial\<lparr>isPresenting := True\<rparr>, [FillURL 9 ''ico-svg/present-stop.svg'' True], None)
   \<and> sidePanelObserver env1 pageMeetingFull (initial\<lparr>isSidePanelVisible := True\<rparr>) =
     (initial\<lparr>isSidePanelVisible := True\<rparr>, [], None)"
  using redraw_policy [of pageMeetingFull "Element 5 [(''data-is-muted'', ''true'')] [] []"
          env1 initial "Element 7 [(''data-is-muted'', ''false'')] [] []"
          "Element 10 [] [''p2SYhf'', ''SNTzF''] [Element 11 [] [] []]"
          "Element 12 [] [''Q8K3Le''] [Element 13 [] [] []]"]
        redraw_policy [of pageMeetingFull "Element 5 [(''data-is-muted'', ''true'')] [] []"
          env1 "initial\<lparr>isSidePanelVisible := True\<rparr>"
          "Element 7 [(''data-is-muted'', ''false'')] [] []"
          "Element 10 [] [''p2SYhf'', ''SNTzF''] [Element 11 [] [] []]"
          "Element 12 [] [''Q8K3Le''] [Element 13 [] [] []]"]
        redraw_policy [of pagePresenting _ env1 initial]
  by (simp add: pageMeetingFull_buttons getAttribute_def contains_def fill_env1 layout1_def
      getURL_def initial_def pagePresenting_button)

text \<open>
  Two side-panel updates in a row on the same page: the selected tab has not changed,
  and the second update draws both icons again.
\<close>

theorem updateSidePanel_redraws_counterexample:
  "selectedTabId pageMeeting = Some ''1''
   \<and> final (updateSidePanel env1 pageMeeting inMeeting) = inMeeting
   \<and> calls (updateSidePanel env1 pageMeeting (final (updateSidePanel env1 pageMeeting inMeeting))) =
       [FillURL 2 ''ico-svg/users-open.svg'' True, FillURL 3 ''ico-svg/chat.svg'' True]"
  by (simp add: updateSidePanel_perform perform_def final_def calls_def
      selectedTabId_pageMeeting fill_env1 layout1_def getURL_def)

subsection \<open>Entering the meeting room\<close>

lemma andThen_observe_Some:
  "andThen (observe ob (Some x)) f s = f (s\<lparr>observing := observing s @ [(ob, elem_id x)]\<rparr>)"
  by (simp add: observe_def andThen_modify)

lemma count_fill_clear [simp]: "count_list (fill e n) ClearAllButtons = 0"
  by (simp add: fill_def)

lemma fill_disconnected [simp]: "\<not> isConnected (deck e) \<Longrightarrow> fill e n = []"
  by (simp add: fill_def)

lemma enterMeeting_eq:
  assumes "currentRoom s \<noteq> Some meeting"
    and "getStatusBar d = Some bar"
    and "querySelector d ''[jsname=o4MlPd]'' = Some panel"
  shows "enterMeeting e d s =
     (s\<lparr>currentRoom := Some meeting,
        observing := observing s @
          [(StatusBarObserver, elem_id bar), (SidePanelObserver, elem_id panel)]\<rparr>,
      (if isConnected (deck e) then [ClearAllButtons] else []) @
      (if hueLights e \<noteq> None then fill e ''light-on'' @ fill e ''light-off'' else []) @
      fill e (if selectedTabId d = Some ''1'' then ''users-open'' else ''users'') @
      fill e (if selectedTabId d = Some ''2'' then ''chat-open'' else ''chat'') @
      (case getMicButton d of None \<Rightarrow> []
       | Some b \<Rightarrow> fill e (if getAttribute b ''data-is-muted'' = Some ''true''
                           then ''mic-disabled'' else ''mic'')) @
      (case getCamButton d of None \<Rightarrow> []
       | Some b \<Rightarrow> fill e (if getAttribute b ''data-is-muted'' = Some ''true''
                           then ''cam-disabled'' else ''cam'')) @
      (case getHandButton d of None \<Rightarrow> []
       | Some b \<Rightarrow> fill e (if contains b ''SNTzF'' then ''hand-raised'' else ''hand'')) @
      (case getCCButton d of None \<Rightarrow> []
       | Some b \<Rightarrow> fill e (if contains b ''o7y9G'' then ''cc-on'' else ''cc'')) @
      fill e ''end-call'' @
      (case hueLights e of None \<Rightarrow> [] | Some h \<Rightarrow> if auto h then [HueOn False] else []),
      None)"
  using assms
  by (simp add: enterMeeting_def andThen_modify andThen_observe_Some perform_simps perform_def)


lemma enterMeeting_without_status_bar:
  "currentRoom s \<noteq> Some meeting \<Longrightarrow> getStatusBar d = None \<Longrightarrow>
   enterMeeting e d s = (s\<lparr>currentRoom := Some meeting\<rparr>, [], Some TypeError)"
  by (simp add: enterMeeting_def andThen_modify observe_def throw_def)

text \<open>
  C3 (as the code has it). A transition into the meeting room on a page that has the
  status bar and the side-panel container makes, on a connected device, exactly one
  clear-all-buttons call, first, and then in the same invocation the draw requests for
  the two light icons (when there is a Hue helper), the users and chat icons, the mic,
  cam, hand and captions icons of those elements that are on the page, and end-call; a
  draw request reaches the device only if the layout has the icon. On a disconnected
  device it makes no device call. It does not throw and the room becomes meeting.
\<close>

theorem enterMeeting_redraws:
  assumes "currentRoom s \<noteq> Some meeting"
    and "getStatusBar d \<noteq> None"
    and "querySelector d ''[jsname=o4MlPd]'' \<noteq> None"
  shows "calls (enterMeeting e d s) =
      (if isConnected (deck e) then [ClearAllButtons] else []) @
      (if hueLights e \<noteq> None then fill e ''light-on'' @ fill e ''light-off'' else []) @
      fill e (if selectedTabId d = Some ''1'' then ''users-open'' else ''users'') @
      fill e (if selectedTabId d = Some ''2'' then ''chat-open'' else ''chat'') @
      (case getMicButton d of None \<Rightarrow> []
       | Some b \<Rightarrow> fill e (if getAttribute b ''data-is-muted'' = Some ''true''
                           then ''mic-disabled'' else ''mic'')) @
      (case getCamButton d of None \<Rightarrow> []
       | Some b \<Rightarrow> fill e (if getAttribute b ''data-is-muted'' = Some ''true''
                           then ''cam-disabled'' else ''cam'')) @
      (case getHandButton d of None \<Rightarrow> []
       | Some b \<Rightarrow> fill e (if contains b ''SNTzF'' then ''hand-raised'' else ''hand'')) @
      (case getCCButton d of None \<Rightarrow> []
       | Some b \<Rightarrow> fill e (if contains b ''o7y9G'' then ''cc-on'' else ''cc'')) @
      fill e ''end-call'' @
      (case hueLights e of None \<Rightarrow> [] | Some h \<Rightarrow> if auto h then [HueOn False] else [])
    \<and> count_list (calls (enterMeeting e d s)) ClearAllButtons =
        (if isConnected (deck e) then 1 else 0)
    \<and> thrown (enterMeeting e d s) = None
    \<and> currentRoom (final (enterMeeting e d s)) = Some meeting"
proof -
  from assms obtain bar panel where
    "getStatusBar d = Some bar" "querySelector d ''[jsname=o4MlPd]'' = Some panel"
    by auto
  with assms(1) show ?thesis
    by (simp add: enterMeeting_eq [where bar = bar and panel = panel] calls_def thrown_def
        final_def split: option.splits)
qed

lemma fill_envHue:
  "fill envHue n = (if 0 \<le> layout1 n then [FillURL (layout1 n) (getURL n) True] else [])"
  by (simp add: fill_def envHue_def)

lemma env1_fields:
  "isConnected (deck env1)" "hueLights env1 = None"
  by (simp_all add: env1_def)

lemma envOff_fields:
  "\<not> isConnected (deck envOff)" "hueLights envOff = None"
  by (simp_all add: envOff_def)

lemma envHue_fields:
  "isConnected (deck envHue)" "hueLights envHue = Some \<lparr>auto = True\<rparr>"
  by (simp_all add: envHue_def)

lemma selectedTabId_pageMeetingFull: "selectedTabId pageMeetingFull = Some ''1''"
  by (simp add: selectedTabId_def pageMeetingFull_buttons picker1_def
      elemQuerySelectorAttr_def getAttribute_def)

theorem enterMeeting_redraws_witness:
  "calls (enterMeeting envHue pageMeetingFull initial) =
     [ClearAllButtons,
      FillURL 7 ''ico-svg/light-on.svg'' True, FillURL 8 ''ico-svg/light-off.svg'' True,
      FillURL 2 ''ico-svg/users-open.svg'' True, FillURL 3 ''ico-svg/chat.svg'' True,
      FillURL 0 ''ico-svg/mic-disabled.svg'' True, FillURL 1 ''ico-svg/cam.svg'' True,
      FillURL 5 ''ico-svg/hand-raised.svg'' True, FillURL 6 ''ico-svg/cc.svg'' True,
      FillURL 4 ''ico-svg/end-call.svg'' True,
      HueOn False]"
proof -
  have "currentRoom initial \<noteq> Some meeting"
    by (simp add: initial_def)
  moreover have "getStatusBar pageMeetingFull \<noteq> None"
    by (simp add: pageMeetingFull_buttons)
  moreover have "querySelector pageMeetingFull ''[jsname=o4MlPd]'' \<noteq> None"
    by (simp add: pageMeetingFull_buttons)
  ultimately show ?thesis
    using enterMeeting_redraws [of initial pageMeetingFull envHue]
    by (simp add: pageMeetingFull_buttons selectedTabId_pageMeetingFull getAttribute_def
        contains_def fill_envHue layout1_def getURL_def envHue_fields)
qed

lemma pageMeeting_buttons:
  "getMicButton pageMeeting = Some (Element 5 [(''data-is-muted'', ''true'')] [] [])"
  "getCamButton pageMeeting = Some (Element 7 [(''data-is-muted'', ''false'')] [] [])"
  "getHandButton pageMeeting = None"
  "getCCButton pageMeeting = None"
  "getStopPresentingButton pageMeeting = None"
  "getStatusBar pageMeeting = Some (Element 2 [(''jsname'', ''EaZ7Cc'')] [] [])"
  "querySelector pageMeeting ''[jsname=o4MlPd]'' = Some (Element 3 [(''jsname'', ''o4MlPd'')] [] [])"
  by (simp_all add: getMicButton_def getCamButton_def getHandButton_def getCCButton_def
      getStopPresentingButton_def getStatusBar_def
      querySelector_def pageMeeting_def firstChild_def)

text \<open>
  Entering the meeting on the page as it first shows, without the hand and captions
  buttons, draws neither of those icons; entering it with a disconnected device clears
  nothing and draws nothing.
\<close>

theorem enterMeeting_redraws_counterexample:
  "calls (enterMeeting env1 pageMeeting initial) =
     [ClearAllButtons,
      FillURL 2 ''ico-svg/users-open.svg'' True, FillURL 3 ''ico-svg/chat.svg'' True,
      FillURL 0 ''ico-svg/mic-disabled.svg'' True, FillURL 1 ''ico-svg/cam.svg'' True,
      FillURL 4 ''ico-svg/end-call.svg'' True]
   \<and> enterMeeting envOff pageMeetingFull initial =
     (initial\<lparr>currentRoom := Some meeting,
        observing := [(StatusBarObserver, 2), (SidePanelObserver, 3)]\<rparr>, [], None)"
proof -
  have room: "currentRoom initial \<noteq> Some meeting"
    by (simp add: initial_def)
  have "calls (enterMeeting env1 pageMeeting initial) =
     [ClearAllButtons,
      FillURL 2 ''ico-svg/users-open.svg'' True, FillURL 3 ''ico-svg/chat.svg'' True,
      FillURL 0 ''ico-svg/mic-disabled.svg'' True, FillURL 1 ''ico-svg/cam.svg'' True,
      FillURL 4 ''ico-svg/end-call.svg'' True]"
    by (simp add: enterMeeting_eq [OF room pageMeeting_buttons(6) pageMeeting_buttons(7)]
        calls_def pageMeeting_buttons selectedTabId_pageMeeting getAttribute_def
        fill_env1 layout1_def getURL_def env1_fields)
  moreover have "enterMeeting envOff pageMeetingFull initial =
     (initial\<lparr>currentRoom := Some meeting,
        observing := [(StatusBarObserver, 2), (SidePanelObserver, 3)]\<rparr>, [], None)"
    by (subst enterMeeting_eq [OF room pageMeetingFull_buttons(7) pageMeetingFull_buttons(8)])
       (simp add: pageMeetingFull_buttons envOff_fields initial_def)
  ultimately show ?thesis by simp
qed

subsection \<open>What an operation leaves of the state\<close>

lemma final_simps [simp]:
  "final (s, t, r) = s" "calls (s, t, r) = t" "thrown (s, t, r) = r"
  by (simp_all add: final_def calls_def thrown_def)

lemma final_andThen:
  "final (andThen f g s) =
     (if thrown (f s) = None then final (g (final (f s))) else final (f s))"
  by (simp add: andThen_def final_def thrown_def split: prod.splits option.splits)

lemma preservesI: "(\<And>s. P s \<Longrightarrow> P (final (f s))) \<Longrightarrow> preserves P f"
  by (simp add: preserves_def)

lemma preservesD: "preserves P f \<Longrightarrow> P s \<Longrightarrow> P (final (f s))"
  by (simp add: preserves_def)

lemma preserves_perform [simp]: "preserves P (perform t)"
  by (simp add: preserves_def perform_def)

lemma preserves_throw [simp]: "preserves P (throw x)"
  by (simp add: preserves_def throw_def)

lemma preserves_emit [simp]: "preserves P (emit a)"
  by (simp add: emit_perform)

lemma preserves_andThen:
  "preserves P f \<Longrightarrow> preserves P g \<Longrightarrow> preserves P (andThen f g)"
  by (simp add: preserves_def final_andThen)

lemma preserves_sequence:
  "(\<And>f. f \<in> set fs \<Longrightarrow> preserves P f) \<Longrightarrow> preserves P (sequence fs)"
  by (induction fs) (simp_all add: skip_perform preserves_andThen)

lemma preserves_modify: "(\<And>s. P s \<Longrightarrow> P (g s)) \<Longrightarrow> preserves P (modify g)"
  by (simp add: preserves_def modify_def)

lemma preserves_observe:
  "(\<And>s x. P s \<Longrightarrow> P (s\<lparr>observing := observing s @ [(ob, x)]\<rparr>))
   \<Longrightarrow> preserves P (observe ob target)"
  by (cases target) (simp_all add: observe_def preserves_modify)

lemma preserves_cond:
  "preserves P f \<Longrightarrow> preserves P g \<Longrightarrow> preserves P (\<lambda>s. if c s then f s else g s)"
  by (simp add: preserves_def)

lemma preserves_if:
  "preserves P f \<Longrightarrow> preserves P g \<Longrightarrow> preserves P (if c then f else g)"
  by simp

lemma preserves_whenAttached: "preserves P f \<Longrightarrow> preserves P (whenAttached ob f)"
  by (simp add: preserves_def whenAttached_def skip_def)

lemma preserves_tapElement [simp]: "preserves P (tapElement d sel)"
  by (simp add: tapElement_def click_def skip_perform split: option.splits)

lemma preserves_taps [simp]:
  "preserves P (tapStartInstantMeeting d)" "preserves P (tapStartNextMeeting d)"
  "preserves P (tapEnterMeeting d)" "preserves P (tapMic d)" "preserves P (tapCam d)"
  "preserves P (tapHand d)" "preserves P (tapCC d)" "preserves P (tapClosePanel d)"
  "preserves P (tapUsers d)" "preserves P (tapChat d)" "preserves P (tapStopPresenting d)"
  "preserves P (tapHangUp d)" "preserves P (tapRejoin d)" "preserves P (tapHome d)"
  by (simp_all add: tapStartInstantMeeting_def tapStartNextMeeting_def tapEnterMeeting_def
      tapMic_def tapCam_def tapHand_def tapCC_def tapClosePanel_def tapUsers_def tapChat_def
      tapStopPresenting_def tapHangUp_def tapRejoin_def tapHome_def click_def skip_perform
      Let_def split: option.splits)

lemma preserves_hueOn [simp]: "preserves P (hueOn e v)"
  by (simp add: hueOn_def split: option.splits)


lemma final_unchanged:
  assumes "\<And>P. preserves P f"
  shows "final (f s) = s"
  using assms [of "\<lambda>x. x = s"] by (simp add: preserves_def)

lemma final_press_parts:
  "final (hueOn e v s) = s" "final (skip s) = s"
  "final (tapStartInstantMeeting d s) = s" "final (tapStartNextMeeting d s) = s"
  "final (tapEnterMeeting d s) = s" "final (tapMic d s) = s" "final (tapCam d s) = s"
  "final (tapHand d s) = s" "final (tapCC d s) = s"
  "final (tapUsers d s) = s" "final (tapChat d s) = s" "final (tapStopPresenting d s) = s"
  "final (tapHangUp d s) = s" "final (tapRejoin d s) = s" "final (tapHome d s) = s"
  by (simp_all add: final_unchanged skip_def)

lemma final_handleStreamDeckPress: "final (handleStreamDeckPress e d buttonId s) = s"
  by (simp add: handleStreamDeckPress_def Let_def if_distrib [of final] final_press_parts
      split del: if_split cong del: if_weak_cong)


lemma preserves_handleStreamDeckPress: "preserves P (handleStreamDeckPress e d buttonId)"
  by (simp add: preserves_def final_handleStreamDeckPress)

lemma preserves_draws [simp]:
  "preserves P (drawButton e n)" "preserves P (resetButtons e)" "preserves P (drawHueButtons e)"
  "preserves P (autoLightsOff e)" "preserves P (updateSidePanel e d)"
  "preserves P (updateIsMicMuted e d)" "preserves P (updateIsCamMuted e d)"
  "preserves P (updateHandState e d)" "preserves P (updateCCState e d)" "preserves P skip"
  by (simp_all add: perform_simps)

lemma preserves_simple_observers [simp]:
  "preserves P (muteObserver e d)" "preserves P (selectedPanelObserver e d)"
  "preserves P (handObserver e d)" "preserves P (ccObserver e d)"
  by (simp_all add: muteObserver_def selectedPanelObserver_def handObserver_def
      ccObserver_def preserves_andThen)

lemma stableD:
  assumes "stable P" and "P s"
  shows "P (s\<lparr>isPresenting := b\<rparr>)"
    and "P (s\<lparr>isSidePanelVisible := b\<rparr>)"
    and "P (s\<lparr>observing := observing s @ [(SelectedPanelObserver, x)]\<rparr>)"
    and "\<not> handButtonReady s \<Longrightarrow>
           P (s\<lparr>handButtonReady := True, observing := observing s @ [(HandObserver, x)]\<rparr>)"
    and "\<not> ccButtonReady s \<Longrightarrow>
           P (s\<lparr>ccButtonReady := True, observing := observing s @ [(CCObserver, x)]\<rparr>)"
  using assms unfolding stable_def by blast+

lemma roomStableD:
  assumes "roomStable P" and "P s"
  shows "P (s\<lparr>currentRoom := r\<rparr>)"
    and "P (s\<lparr>observing := observing s @ [(StatusBarObserver, x)]\<rparr>)"
    and "P (s\<lparr>observing := observing s @ [(SidePanelObserver, x)]\<rparr>)"
  using assms unfolding roomStable_def by blast+

lemma preserves_updateIsPresenting:
  assumes "stable P"
  shows "preserves P (updateIsPresenting e d)"
proof -
  have "updateIsPresenting e d =
     (\<lambda>s. if isPresenting s = (getStopPresentingButton d \<noteq> None) then skip s
          else andThen (modify (\<lambda>s. s\<lparr>isPresenting := (getStopPresentingButton d \<noteq> None)\<rparr>))
                 (drawButton e (if getStopPresentingButton d \<noteq> None
                                then ''present-stop'' else ''blank'')) s)"
    by (rule ext) (simp only: updateIsPresenting_def Let_def)
  then show ?thesis
    by (simp only:)
       (intro preserves_cond preserves_andThen preserves_modify preserves_draws
        stableD(1) [OF assms])
qed

lemma preserves_sidePanelObserver:
  assumes "stable P"
  shows "preserves P (sidePanelObserver e d)"
proof -
  let ?picker = "querySelector d ''[jsname=I0Fcpe]''"
  have "sidePanelObserver e d =
     (\<lambda>s. if isSidePanelVisible s = (?picker \<noteq> None) then skip s
          else sequence
            [modify (\<lambda>s. s\<lparr>isSidePanelVisible := (?picker \<noteq> None)\<rparr>),
             updateSidePanel e d,
             if ?picker \<noteq> None then observe SelectedPanelObserver ?picker else skip] s)"
    by (rule ext) (simp only: sidePanelObserver_def Let_def)
  then show ?thesis
    by (simp only:)
       (intro preserves_cond preserves_sequence,
        auto intro!: preserves_modify preserves_observe stableD(2,3) [OF assms])
qed

lemma setupHandButton_eq:
  "getHandButton d = Some h \<Longrightarrow>
   setupHandButton e d s =
     (s\<lparr>handButtonReady := True, observing := observing s @ [(HandObserver, elem_id h)]\<rparr>,
      fill e (if contains h ''SNTzF'' then ''hand-raised'' else ''hand''), None)"
  by (simp add: setupHandButton_def andThen_modify andThen_observe_Some perform_simps
      perform_def)

lemma setupCCButton_eq:
  "getCCButton d = Some c \<Longrightarrow>
   setupCCButton e d s =
     (s\<lparr>ccButtonReady := True, observing := observing s @ [(CCObserver, elem_id c)]\<rparr>,
      fill e (if contains c ''o7y9G'' then ''cc-on'' else ''cc''), None)"
  by (simp add: setupCCButton_def andThen_modify andThen_observe_Some perform_simps
      perform_def)

lemma preserves_statusBarChange:
  assumes "stable P"
  shows "preserves P (statusBarChange e d c)"
proof -
  have hand: "preserves P (\<lambda>s. if \<not> handButtonReady s \<and> getHandButton d \<noteq> None
                then setupHandButton e d s else skip s)"
    by (rule preservesI) (auto simp add: setupHandButton_eq skip_def stableD(4) [OF assms])
  have cc: "preserves P (\<lambda>s. if \<not> ccButtonReady s \<and> getCCButton d \<noteq> None
                then setupCCButton e d s else skip s)"
    by (rule preservesI) (auto simp add: setupCCButton_eq skip_def stableD(5) [OF assms])
  show ?thesis
    unfolding statusBarChange_def
    by (intro preserves_if preserves_andThen hand cc preserves_draws)
qed

lemma preserves_statusBarObserver:
  "stable P \<Longrightarrow> preserves P (statusBarObserver e d cs)"
  by (induction cs) (simp_all add: preserves_andThen preserves_statusBarChange)


lemma preserves_enterLobby:
  assumes "roomStable P"
  shows "preserves P (enterLobby e)"
proof -
  have "enterLobby e =
     (\<lambda>s. if currentRoom s = Some lobby then skip s
          else sequence
            [modify (\<lambda>s. s\<lparr>currentRoom := Some lobby\<rparr>),
             resetButtons e, drawHueButtons e,
             drawButton e ''start-next'', drawButton e ''start-instant'',
             autoLightsOff e] s)"
    by (rule ext) (simp only: enterLobby_def)
  then show ?thesis
    by (simp only:)
       (intro preserves_cond preserves_sequence,
        auto intro!: preserves_modify roomStableD(1) [OF assms])
qed

lemma preserves_enterGreenRoom:
  assumes "roomStable P"
  shows "preserves P (enterGreenRoom e d)"
proof -
  have "enterGreenRoom e d =
     (\<lambda>s. if currentRoom s = Some greenRoom then skip s
          else sequence
            [modify (\<lambda>s. s\<lparr>currentRoom := Some greenRoom\<rparr>),
             resetButtons e, drawHueButtons e,
             drawButton e ''enter-meeting'',
             updateIsMicMuted e d, updateIsCamMuted e d,
             autoLightsOff e] s)"
    by (rule ext) (simp only: enterGreenRoom_def)
  then show ?thesis
    by (simp only:)
       (intro preserves_cond preserves_sequence,
        auto intro!: preserves_modify roomStableD(1) [OF assms])
qed

lemma preserves_meeting_rest:
  assumes "\<And>s ob x. ob \<in> {StatusBarObserver, SidePanelObserver} \<Longrightarrow> P s \<Longrightarrow>
             P (s\<lparr>observing := observing s @ [(ob, x)]\<rparr>)"
  shows "preserves P
     (sequence
        [observe StatusBarObserver (getStatusBar d),
         observe SidePanelObserver (querySelector d ''[jsname=o4MlPd]''),
         resetButtons e, drawHueButtons e, updateSidePanel e d,
         updateIsMicMuted e d, updateIsCamMuted e d,
         updateHandState e d, updateCCState e d,
         drawButton e ''end-call'', autoLightsOff e])"
  by (intro preserves_sequence) (auto intro!: preserves_observe assms)

lemma preserves_enterMeeting:
  assumes "roomStable P"
  shows "preserves P (enterMeeting e d)"
proof -
  have "enterMeeting e d =
     (\<lambda>s. if currentRoom s = Some meeting then skip s
          else andThen (modify (\<lambda>s. s\<lparr>currentRoom := Some meeting\<rparr>))
            (sequence
              [observe StatusBarObserver (getStatusBar d),
               observe SidePanelObserver (querySelector d ''[jsname=o4MlPd]''),
               resetButtons e, drawHueButtons e, updateSidePanel e d,
               updateIsMicMuted e d, updateIsCamMuted e d,
               updateHandState e d, updateCCState e d,
               drawButton e ''end-call'', autoLightsOff e]) s)"
    by (rule ext) (simp only: enterMeeting_def sequence.simps)
  then show ?thesis
    by (simp only:)
       (intro preserves_cond preserves_andThen preserves_meeting_rest,
        auto intro!: preserves_modify roomStableD [OF assms])
qed

lemma preserves_enterExitHall:
  assumes "roomStable P"
  shows "preserves P (enterExitHall e)"
proof -
  have "enterExitHall e =
     (\<lambda>s. if currentRoom s = Some exitHall then skip s
          else sequence
            [modify (\<lambda>s. s\<lparr>currentRoom := Some exitHall\<rparr>),
             resetButtons e, drawHueButtons e,
             drawButton e ''rejoin'', drawButton e ''home'',
             autoLightsOff e] s)"
    by (rule ext) (simp only: enterExitHall_def)
  then show ?thesis
    by (simp only:)
       (intro preserves_cond preserves_sequence,
        auto intro!: preserves_modify roomStableD(1) [OF assms])
qed

lemma preserves_bodyObserver:
  "stable P \<Longrightarrow> roomStable P \<Longrightarrow> preserves P (bodyObserver e d)"
  unfolding bodyObserver_def
  by (intro preserves_andThen preserves_if preserves_enterMeeting preserves_enterGreenRoom
      preserves_enterExitHall preserves_updateIsPresenting preserves_draws)

lemma preserves_deliver_other:
  "stable P \<Longrightarrow> i \<noteq> BodyMutation \<Longrightarrow> preserves P (deliver e d i)"
  by (cases i)
     (simp_all add: preserves_handleStreamDeckPress preserves_whenAttached
      preserves_statusBarObserver preserves_sidePanelObserver)

lemma preserves_deliver:
  "stable P \<Longrightarrow> roomStable P \<Longrightarrow> preserves P (deliver e d i)"
  by (cases "i = BodyMutation")
     (simp_all add: preserves_deliver_other preserves_whenAttached preserves_bodyObserver)

lemma preserves_run:
  "stable P \<Longrightarrow> roomStable P \<Longrightarrow> P s \<Longrightarrow> P (run evs s)"
proof (induction evs arbitrary: s)
  case Nil
  then show ?case by simp
next
  case (Cons ev evs)
  obtain e d i where ev: "ev = (e, d, i)" by (cases ev)
  from Cons.prems have "P (final (deliver e d i s))"
    by (auto dest: preservesD [OF preserves_deliver])
  with Cons show ?case by (simp add: ev)
qed


subsection \<open>The hand and captions watchers\<close>

lemma stable_attachedOnce: "stable attachedOnce" "roomStable attachedOnce"
  by (auto simp add: stable_def roomStable_def attachedOnce_def watchers_def)

lemma stable_handButtonReady: "stable handButtonReady" "roomStable handButtonReady"
  by (auto simp add: stable_def roomStable_def)

lemma stable_ccButtonReady: "stable ccButtonReady" "roomStable ccButtonReady"
  by (auto simp add: stable_def roomStable_def)

lemma attachedOnce_construct: "attachedOnce (final (construct e pathname))"
proof (cases "pathname = ''/''")
  case True
  have "attachedOnce initial"
    by (simp add: attachedOnce_def watchers_def initial_def)
  then have "attachedOnce (final (enterLobby e initial))"
    by (rule preservesD [OF preserves_enterLobby [OF stable_attachedOnce(2)]])
  with True show ?thesis by (simp add: construct_def)
next
  case False
  then show ?thesis
    by (simp add: construct_def modify_def attachedOnce_def watchers_def initial_def)
qed

text \<open>
  C10. In every state an instance can reach, at most one hand observer and at most one
  captions observer are attached, and none while the feature's ready flag is false; a
  ready flag that is true stays true over every later event, so no later status-bar
  mutation, also after the meeting room is entered again, attaches a second one.
\<close>

theorem watchers_attached_once:
  "watchers HandObserver (run evs (final (construct e pathname))) \<le> 1
   \<and> watchers CCObserver (run evs (final (construct e pathname))) \<le> 1
   \<and> (\<not> handButtonReady (run evs (final (construct e pathname))) \<longrightarrow>
        watchers HandObserver (run evs (final (construct e pathname))) = 0)
   \<and> (\<not> ccButtonReady (run evs (final (construct e pathname))) \<longrightarrow>
        watchers CCObserver (run evs (final (construct e pathname))) = 0)
   \<and> (handButtonReady s \<longrightarrow> handButtonReady (run evs' s))
   \<and> (ccButtonReady s \<longrightarrow> ccButtonReady (run evs' s))"
proof -
  have "attachedOnce (run evs (final (construct e pathname)))"
    by (rule preserves_run [OF stable_attachedOnce attachedOnce_construct])
  moreover have "handButtonReady s \<Longrightarrow> handButtonReady (run evs' s)"
    by (rule preserves_run [OF stable_handButtonReady])
  moreover have "ccButtonReady s \<Longrightarrow> ccButtonReady (run evs' s)"
    by (rule preserves_run [OF stable_ccButtonReady])
  ultimately show ?thesis
    by (simp add: attachedOnce_def)
qed


lemma session1_final:
  "run session1 (final (construct env1 ''/abc-defg-hij'')) =
     \<lparr>currentRoom = Some meeting, isPresenting = False, isSidePanelVisible = False,
      ccButtonReady = True, handButtonReady = True,
      observing = [(BodyObserver, 0), (MuteObserver, 0),
                   (StatusBarObserver, 2), (SidePanelObserver, 3),
                   (HandObserver, 10), (CCObserver, 12),
                   (StatusBarObserver, 2), (SidePanelObserver, 3)]\<rparr>"
  by code_simp


theorem watchers_attached_once_witness:
  "watchers HandObserver (run session1 (final (construct env1 ''/abc-defg-hij''))) = 1
   \<and> watchers CCObserver (run session1 (final (construct env1 ''/abc-defg-hij''))) = 1
   \<and> handButtonReady (run [(env1, pageExit, BodyMutation)]
         (run session1 (final (construct env1 ''/abc-defg-hij''))))
   \<and> ccButtonReady (run [(env1, pageExit, BodyMutation)]
         (run session1 (final (construct env1 ''/abc-defg-hij''))))
   \<and> \<not> handButtonReady (run [] (final (construct env1 ''/abc-defg-hij'')))
   \<and> watchers HandObserver (run [] (final (construct env1 ''/abc-defg-hij''))) = 0
   \<and> \<not> ccButtonReady (run [] (final (construct env1 ''/abc-defg-hij'')))
   \<and> watchers CCObserver (run [] (final (construct env1 ''/abc-defg-hij''))) = 0"
proof -
  let ?s = "run session1 (final (construct env1 ''/abc-defg-hij''))"
  have ready: "handButtonReady ?s" "ccButtonReady ?s"
    by (simp_all add: session1_final)
  have some: "1 \<le> watchers HandObserver ?s" "1 \<le> watchers CCObserver ?s"
    by (simp_all add: session1_final watchers_def)
  have fresh: "\<not> handButtonReady (run [] (final (construct env1 ''/abc-defg-hij'')))"
    "\<not> ccButtonReady (run [] (final (construct env1 ''/abc-defg-hij'')))"
    by (simp_all add: construct_def modify_def initial_def)
  from watchers_attached_once
         [of session1 env1 "''/abc-defg-hij''" ?s "[(env1, pageExit, BodyMutation)]"]
       watchers_attached_once [of "[]" env1 "''/abc-defg-hij''"]
       ready some fresh
  show ?thesis by simp
qed

subsection \<open>An instance constructed on the landing page\<close>

lemma enterLobby_eq:
  "currentRoom s \<noteq> Some lobby \<Longrightarrow>
   enterLobby e s =
     (s\<lparr>currentRoom := Some lobby\<rparr>,
      (if isConnected (deck e) then [ClearAllButtons] else []) @
      (if hueLights e \<noteq> None then fill e ''light-on'' @ fill e ''light-off'' else []) @
      fill e ''start-next'' @ fill e ''start-instant'' @
      (case hueLights e of None \<Rightarrow> [] | Some h \<Rightarrow> if auto h then [HueOn False] else []),
      None)"
  by (simp add: enterLobby_def andThen_modify perform_simps perform_def)

lemma construct_landing:
  "final (construct e ''/'') = initial\<lparr>currentRoom := Some lobby\<rparr>"
  "thrown (construct e ''/'') = None"
  by (simp_all add: construct_def enterLobby_eq initial_def)

lemma deliver_unobserved:
  assumes "observing s = []"
  shows "final (deliver e d i s) = s"
    and "(\<And>b. i \<noteq> KeyDown b) \<Longrightarrow> deliver e d i s = (s, [], None)"
proof -
  show "final (deliver e d i s) = s"
    using assms
    by (cases i)
       (simp_all add: final_handleStreamDeckPress whenAttached_def attached_def skip_def)
  show "deliver e d i s = (s, [], None)" if "\<And>b. i \<noteq> KeyDown b"
    using assms that [of "case i of KeyDown b \<Rightarrow> b | _ \<Rightarrow> 0"]
    by (cases i) (simp_all add: whenAttached_def attached_def skip_def)
qed

lemma run_unobserved: "observing s = [] \<Longrightarrow> run evs s = s"
proof (induction evs)
  case Nil
  then show ?case by simp
next
  case (Cons ev evs)
  obtain e d i where "ev = (e, d, i)" by (cases ev)
  with Cons show ?case by (simp add: deliver_unobserved(1))
qed

text \<open>
  C9. Constructed with path \<open>/\<close>, the wrapper enters the lobby without throwing and
  attaches no observer. Over every later sequence of events its state stays what the
  constructor left: the room is lobby, nothing is observed, and the delivery of anything
  but a key press does nothing.
\<close>

theorem landing_page_stays_lobby:
  "thrown (construct e ''/'') = None
   \<and> run evs (final (construct e ''/'')) = final (construct e ''/'')
   \<and> currentRoom (run evs (final (construct e ''/''))) = Some lobby
   \<and> observing (run evs (final (construct e ''/''))) = []
   \<and> ((\<forall>b. i \<noteq> KeyDown b) \<longrightarrow>
        deliver e' d i (run evs (final (construct e ''/''))) =
          (final (construct e ''/''), [], None))"
proof -
  have obs: "observing (final (construct e ''/'')) = []"
    by (simp add: construct_landing initial_def)
  have same: "run evs (final (construct e ''/'')) = final (construct e ''/'')"
    by (rule run_unobserved [OF obs])
  have "currentRoom (final (construct e ''/'')) = Some lobby"
    by (simp add: construct_landing)
  with obs same show ?thesis
    by (simp add: construct_landing(2) deliver_unobserved(2) [OF obs])
qed


theorem landing_page_stays_lobby_witness:
  "currentRoom (run session1 (final (construct envHue ''/''))) = Some lobby
   \<and> observing (run session1 (final (construct envHue ''/''))) = []
   \<and> deliver env1 pageMeeting BodyMutation (run session1 (final (construct envHue ''/''))) =
       (initial\<lparr>currentRoom := Some lobby\<rparr>, [], None)"
proof -
  have c: "final (construct envHue ''/'') = initial\<lparr>currentRoom := Some lobby\<rparr>"
    by (rule construct_landing(1))
  have "\<forall>b. BodyMutation \<noteq> KeyDown b"
    by simp
  with landing_page_stays_lobby [of envHue session1 BodyMutation env1 pageMeeting]
  show ?thesis
    unfolding c by blast
qed

subsection \<open>The room classifier\<close>

lemma currentRoom_enterMeeting: "currentRoom (final (enterMeeting e d s)) = Some meeting"
proof (cases "currentRoom s = Some meeting")
  case True
  then show ?thesis by (simp add: enterMeeting_def skip_def)
next
  case False
  have "preserves (\<lambda>x. currentRoom x = Some meeting)
     (sequence
        [observe StatusBarObserver (getStatusBar d),
         observe SidePanelObserver (querySelector d ''[jsname=o4MlPd]''),
         resetButtons e, drawHueButtons e, updateSidePanel e d,
         updateIsMicMuted e d, updateIsCamMuted e d,
         updateHandState e d, updateCCState e d,
         drawButton e ''end-call'', autoLightsOff e])"
    by (rule preserves_meeting_rest) simp
  then show ?thesis
    using False by (simp add: enterMeeting_def andThen_modify preserves_def)
qed

lemma enterGreenRoom_eq:
  "currentRoom s \<noteq> Some greenRoom \<Longrightarrow>
   final (enterGreenRoom e d s) = s\<lparr>currentRoom := Some greenRoom\<rparr>"
  by (simp add: enterGreenRoom_def andThen_modify perform_simps perform_def)

lemma enterExitHall_eq:
  "currentRoom s \<noteq> Some exitHall \<Longrightarrow>
   final (enterExitHall e s) = s\<lparr>currentRoom := Some exitHall\<rparr>"
  by (simp add: enterExitHall_def andThen_modify perform_simps perform_def)

lemma currentRoom_enterGreenRoom:
  "currentRoom (final (enterGreenRoom e d s)) = Some greenRoom"
  by (cases "currentRoom s = Some greenRoom")
     (simp_all add: enterGreenRoom_eq, simp add: enterGreenRoom_def skip_def)

lemma currentRoom_enterExitHall:
  "currentRoom (final (enterExitHall e s)) = Some exitHall"
  by (cases "currentRoom s = Some exitHall")
     (simp_all add: enterExitHall_eq, simp add: enterExitHall_def skip_def)

lemma stable_currentRoom: "stable (\<lambda>x. currentRoom x = r)"
  by (simp add: stable_def)

lemma currentRoom_updateIsPresenting:
  "currentRoom (final (updateIsPresenting e d s)) = currentRoom s"
  using preservesD [OF preserves_updateIsPresenting [OF stable_currentRoom [of "currentRoom s"]],
      where s = s]
  by simp

lemma currentRoom_bodyObserver:
  "currentRoom (final (bodyObserver e d s)) =
     (case classify d of None \<Rightarrow> currentRoom s | Some r \<Rightarrow> Some r)"
  by (simp add: bodyObserver_def final_andThen classify_def currentRoom_updateIsPresenting
      currentRoom_enterMeeting currentRoom_enterGreenRoom currentRoom_enterExitHall skip_def)

lemma stable_attached: "stable (attached ob)" "roomStable (attached ob)"
  by (auto simp add: stable_def roomStable_def attached_def)

lemma currentRoom_deliver:
  assumes "attached BodyObserver s"
  shows "currentRoom (final (deliver e d i s)) =
     (if i = BodyMutation then (case classify d of None \<Rightarrow> currentRoom s | Some r \<Rightarrow> Some r)
      else currentRoom s)"
proof (cases "i = BodyMutation")
  case True
  with assms show ?thesis
    by (simp add: whenAttached_def currentRoom_bodyObserver)
next
  case False
  then show ?thesis
    using preservesD [OF preserves_deliver_other [OF stable_currentRoom [of "currentRoom s"]],
        where s = s and i1 = i]
    by simp
qed

lemma currentRoom_run:
  "attached BodyObserver s \<Longrightarrow> currentRoom (run evs s) = lastMatch (currentRoom s) evs"
proof (induction evs arbitrary: s)
  case Nil
  then show ?case by simp
next
  case (Cons ev evs)
  obtain e d i where ev: "ev = (e, d, i)" by (cases ev)
  have "attached BodyObserver (final (deliver e d i s))"
    using Cons.prems by (rule preservesD [OF preserves_deliver [OF stable_attached]])
  then have "currentRoom (run evs (final (deliver e d i s))) =
      lastMatch (currentRoom (final (deliver e d i s))) evs"
    by (rule Cons.IH)
  then show ?case
    by (simp add: ev currentRoom_deliver [OF Cons.prems])
qed

lemma andThen_nothing: "f s = (s, [], None) \<Longrightarrow> andThen f g s = g s"
  by (simp add: andThen_def split: prod.splits)

lemma enter_same_room:
  "currentRoom s = Some lobby \<Longrightarrow> enterLobby e s = (s, [], None)"
  "currentRoom s = Some greenRoom \<Longrightarrow> enterGreenRoom e d s = (s, [], None)"
  "currentRoom s = Some meeting \<Longrightarrow> enterMeeting e d s = (s, [], None)"
  "currentRoom s = Some exitHall \<Longrightarrow> enterExitHall e s = (s, [], None)"
  by (simp_all add: enterLobby_def enterGreenRoom_def enterMeeting_def enterExitHall_def
      skip_def)

lemma bodyObserver_same_room:
  assumes "classify d = currentRoom s"
  shows "bodyObserver e d s = updateIsPresenting e d s"
proof -
  have "(if querySelector d ''div[data-second-screen]'' \<noteq> None then enterMeeting e d
         else if querySelector d ''.KWIIWd'' \<noteq> None then enterGreenRoom e d
         else if querySelector d ''.CRFCdf'' \<noteq> None then enterExitHall e
         else skip) s = (s, [], None)"
    using assms [symmetric]
    by (simp add: classify_def enter_same_room skip_def split: if_splits)
  then show ?thesis
    unfolding bodyObserver_def by (rule andThen_nothing)
qed

lemma isPresenting_updateIsPresenting:
  "isPresenting (final (updateIsPresenting e d s)) = (getStopPresentingButton d \<noteq> None)"
  by (simp add: updateIsPresenting_eq)

lemma final_andThen_ok:
  "thrown (andThen f g s) = None \<Longrightarrow> final (andThen f g s) = final (g (final (f s)))"
  by (simp add: andThen_def split: prod.splits option.splits)

lemma bodyObserver_again:
  assumes "thrown (bodyObserver e d s) = None"
  shows "bodyObserver e' d (final (bodyObserver e d s)) = (final (bodyObserver e d s), [], None)"
proof -
  let ?s' = "final (bodyObserver e d s)"
  obtain s1 where "?s' = final (updateIsPresenting e d s1)"
    using final_andThen_ok [OF assms [unfolded bodyObserver_def]]
    unfolding bodyObserver_def by blast
  then have "isPresenting ?s' = (getStopPresentingButton d \<noteq> None)"
    by (simp only: isPresenting_updateIsPresenting)
  then have "updateIsPresenting e' d ?s' = (?s', [], None)"
    by (simp add: updateIsPresenting_eq)
  moreover have "bodyObserver e' d ?s' = updateIsPresenting e' d ?s'"
  proof (cases "classify d")
    case None
    then have "(if querySelector d ''div[data-second-screen]'' \<noteq> None then enterMeeting e' d
         else if querySelector d ''.KWIIWd'' \<noteq> None then enterGreenRoom e' d
         else if querySelector d ''.CRFCdf'' \<noteq> None then enterExitHall e'
         else skip) ?s' = (?s', [], None)"
      by (simp add: classify_def skip_def split: if_splits)
    then show ?thesis
      unfolding bodyObserver_def by (rule andThen_nothing)
  next
    case (Some r)
    then have "classify d = currentRoom ?s'"
      by (simp add: currentRoom_bodyObserver)
    then show ?thesis by (rule bodyObserver_same_room)
  qed
  ultimately show ?thesis by simp
qed


text \<open>
  C1. For an instance constructed off the landing page, after every sequence of events
  the current room is the room of the last body mutation whose document matched a marker,
  the markers tested in the order meeting, green room, exit hall (and undefined while
  none has matched); the lobby is the room only of an instance constructed on the landing
  page. An enter-room handler called in its own room returns at once with
  no call; so a body mutation that classifies to the current room runs the presenting
  update only, and a body mutation on a document just observed without an exception
  makes no call at all and leaves the state as it is.
\<close>

theorem current_room_is_last_match:
  "(pathname \<noteq> ''/'' \<longrightarrow>
      currentRoom (run evs (final (construct e pathname))) = lastMatch None evs)
   \<and> currentRoom (run evs (final (construct e ''/''))) = Some lobby
   \<and> (currentRoom s = Some lobby \<longrightarrow> enterLobby e s = (s, [], None))
   \<and> (currentRoom s = Some greenRoom \<longrightarrow> enterGreenRoom e d s = (s, [], None))
   \<and> (currentRoom s = Some meeting \<longrightarrow> enterMeeting e d s = (s, [], None))
   \<and> (currentRoom s = Some exitHall \<longrightarrow> enterExitHall e s = (s, [], None))
   \<and> (classify d = currentRoom s \<longrightarrow> bodyObserver e d s = updateIsPresenting e d s)
   \<and> (thrown (bodyObserver e d s) = None \<longrightarrow>
        bodyObserver e' d (final (bodyObserver e d s)) = (final (bodyObserver e d s), [], None))"
proof -
  have "currentRoom (run evs (final (construct e pathname))) = lastMatch None evs"
    if "pathname \<noteq> ''/''"
  proof -
    from that have c: "final (construct e pathname) =
        initial\<lparr>observing := [(BodyObserver, 0), (MuteObserver, 0)]\<rparr>"
      by (simp add: construct_def modify_def initial_def)
    have "attached BodyObserver (final (construct e pathname))"
      by (simp add: c attached_def)
    then have "currentRoom (run evs (final (construct e pathname))) =
        lastMatch (currentRoom (final (construct e pathname))) evs"
      by (rule currentRoom_run)
    then show ?thesis
      by (simp add: c initial_def)
  qed
  moreover have "currentRoom (run evs (final (construct e ''/''))) = Some lobby"
    by (simp add: construct_landing(1) run_unobserved initial_def)
  ultimately show ?thesis
    by (simp add: enter_same_room bodyObserver_same_room bodyObserver_again)
qed

lemma session1_lastMatch: "lastMatch None session1 = Some meeting"
  by code_simp

lemma bodyObserver_pageMeeting:
  "bodyObserver env1 pageMeeting initial =
     (\<lparr>currentRoom = Some meeting, isPresenting = False, isSidePanelVisible = False,
       ccButtonReady = False, handButtonReady = False,
       observing = [(StatusBarObserver, 2), (SidePanelObserver, 3)]\<rparr>,
      [ClearAllButtons,
       FillURL 2 ''ico-svg/users-open.svg'' True, FillURL 3 ''ico-svg/chat.svg'' True,
       FillURL 0 ''ico-svg/mic-disabled.svg'' True, FillURL 1 ''ico-svg/cam.svg'' True,
       FillURL 4 ''ico-svg/end-call.svg'' True],
      None)"
  by code_simp

theorem current_room_is_last_match_witness:
  "currentRoom (run session1 (final (construct env1 ''/abc-defg-hij''))) = Some meeting
   \<and> enterLobby env1 (initial\<lparr>currentRoom := Some lobby\<rparr>) =
       (initial\<lparr>currentRoom := Some lobby\<rparr>, [], None)
   \<and> enterGreenRoom env1 pageMeeting (initial\<lparr>currentRoom := Some greenRoom\<rparr>) =
       (initial\<lparr>currentRoom := Some greenRoom\<rparr>, [], None)
   \<and> enterMeeting env1 pageMeeting inMeeting = (inMeeting, [], None)
   \<and> enterExitHall env1 (initial\<lparr>currentRoom := Some exitHall\<rparr>) =
       (initial\<lparr>currentRoom := Some exitHall\<rparr>, [], None)
   \<and> bodyObserver env1 pageMeeting inMeeting = updateIsPresenting env1 pageMeeting inMeeting
   \<and> calls (bodyObserver env1 pageMeeting (final (bodyObserver env1 pageMeeting initial))) = []"
proof -
  have path: "''/abc-defg-hij'' \<noteq> ''/''"
    by simp
  have cls: "classify pageMeeting = currentRoom inMeeting"
    by (simp add: classify_def pageMeeting_def querySelector_def inMeeting_def initial_def)
  have ok: "thrown (bodyObserver env1 pageMeeting initial) = None"
    by (simp add: bodyObserver_pageMeeting)
  have rooms:
    "currentRoom (initial\<lparr>currentRoom := Some lobby\<rparr>) = Some lobby"
    "currentRoom (initial\<lparr>currentRoom := Some greenRoom\<rparr>) = Some greenRoom"
    "currentRoom inMeeting = Some meeting"
    "currentRoom (initial\<lparr>currentRoom := Some exitHall\<rparr>) = Some exitHall"
    by (simp_all add: inMeeting_def)
  from path rooms cls ok
    current_room_is_last_match
      [of "''/abc-defg-hij''" session1 env1 "initial\<lparr>currentRoom := Some lobby\<rparr>"]
    current_room_is_last_match
      [of "''/abc-defg-hij''" session1 env1 "initial\<lparr>currentRoom := Some greenRoom\<rparr>"
          pageMeeting]
    current_room_is_last_match
      [of "''/abc-defg-hij''" session1 env1 inMeeting pageMeeting]
    current_room_is_last_match
      [of "''/abc-defg-hij''" session1 env1 "initial\<lparr>currentRoom := Some exitHall\<rparr>"]
    current_room_is_last_match
      [of "''/abc-defg-hij''" session1 env1 initial pageMeeting env1]
  show ?thesis
    by (simp add: session1_lastMatch)
qed

end
